theory Spec2Isabelle
  imports Main
begin

section \<open>Values and built-ins\<close>

text \<open>
  A JSON value as \<open>JSON.parse\<close> produces it. An optional field or an \<open>undefined\<close>
  argument is a \<open>json option\<close>. Numbers are restricted to integers: no function modelled
  here computes with them. Text is held as its UTF-8 bytes: a \<open>char\<close> is one byte.
\<close>

datatype json =
    JNull
  | JBool bool
  | JNum int
  | JStr string
  | JArr "json list"
  | JObj "(string \<times> json) list"

text \<open>
  An object literal whose property values may be \<open>undefined\<close>, as it is serialised: such
  properties are left out.
\<close>

definition obj :: "(string \<times> json option) list \<Rightarrow> json" where
  "obj kvs = JObj (List.map_filter (\<lambda>(k, v). map_option (Pair k) v) kvs)"

text \<open>What \<open>validate.errors\<close> of Ajv holds: one entry per violation.\<close>

record ajv_error =
  instancePath :: string
  schemaPath :: string
  keyword :: string
  ajv_params :: json
  ajv_message :: string

text \<open>
  The built-in and library functions the code calls and whose bodies are not part of the
  repository. \<open>JSON_parse\<close> is \<open>None\<close> where \<open>JSON.parse\<close> throws; \<open>JSON_stringify\<close> is
  \<open>JSON.stringify(v, null, 2)\<close>; \<open>String_of\<close> is the coercion a template literal applies
  to a value that is no string; \<open>TypeError_message\<close> is the engine's text for a TypeError
  raised at the named expression; \<open>ajv_compile\<close> is \<open>Inl\<close> the message of the error where
  \<open>ajv.compile\<close> throws, and the compiled validator returns \<open>None\<close> for a valid instance
  and the error list otherwise.
\<close>

record env =
  JSON_parse :: "string \<Rightarrow> json option"
  JSON_stringify :: "json \<Rightarrow> string"
  String_of :: "json \<Rightarrow> string"
  toUpperCase :: "string \<Rightarrow> string"
  toLowerCase :: "string \<Rightarrow> string"
  TypeError_message :: "string \<Rightarrow> string"
  ajv_compile :: "json \<Rightarrow> string + (json \<Rightarrow> ajv_error list option)"

section \<open>Errors (errors/mcp-errors.ts)\<close>

datatype MCPErrorCode =
    PARSE_ERROR
  | INVALID_REQUEST
  | METHOD_NOT_FOUND
  | INVALID_PARAMS
  | INTERNAL_ERROR
  | INITIALIZATION_FAILED
  | TOOL_EXECUTION_ERROR
  | RESOURCE_NOT_FOUND
  | PERMISSION_DENIED
  | RATE_LIMIT_EXCEEDED
  | VALIDATION_ERROR
  | TIMEOUT_ERROR

fun code_value :: "MCPErrorCode \<Rightarrow> int" where
  "code_value PARSE_ERROR = -32700"
| "code_value INVALID_REQUEST = -32600"
| "code_value METHOD_NOT_FOUND = -32601"
| "code_value INVALID_PARAMS = -32602"
| "code_value INTERNAL_ERROR = -32603"
| "code_value INITIALIZATION_FAILED = -32000"
| "code_value TOOL_EXECUTION_ERROR = -32001"
| "code_value RESOURCE_NOT_FOUND = -32002"
| "code_value PERMISSION_DENIED = -32003"
| "code_value RATE_LIMIT_EXCEEDED = -32004"
| "code_value VALIDATION_ERROR = -32005"
| "code_value TIMEOUT_ERROR = -32006"

text \<open>
  A thrown value: an \<open>MCPError\<close> (code, message, data), a plain \<open>Error\<close> (message only),
  or a \<open>TypeError\<close> of the engine, tagged with the expression that raised it.
\<close>

datatype js_error =
    MCPError int string "json option"
  | Error string
  | TypeError string

fun error_message :: "env \<Rightarrow> js_error \<Rightarrow> string" where
  "error_message e (MCPError c m d) = m"
| "error_message e (Error m) = m"
| "error_message e (TypeError site) = TypeError_message e site"

definition ValidationError :: "string \<Rightarrow> json option \<Rightarrow> js_error" where
  "ValidationError m d = MCPError (code_value VALIDATION_ERROR) m d"

definition ToolExecutionError :: "string \<Rightarrow> json option \<Rightarrow> js_error" where
  "ToolExecutionError m d = MCPError (code_value TOOL_EXECUTION_ERROR) m d"

section \<open>Transport (transport/stdio.ts)\<close>

record StdioTransport =
  buffer :: string
  closed :: bool

datatype transport_event =
    message_event json
  | error_event js_error
  | close_event

definition StdioTransport_new :: StdioTransport where
  "StdioTransport_new = \<lparr>buffer = [], closed = False\<rparr>"

















definition handleEnd :: "StdioTransport \<Rightarrow> StdioTransport \<times> transport_event list" where
  "handleEnd t = (t\<lparr>closed := True\<rparr>, [close_event])"

definition close :: "StdioTransport \<Rightarrow> StdioTransport \<times> transport_event list" where
  "close t = (if closed t then (t, []) else (t\<lparr>closed := True\<rparr>, [close_event]))"

section \<open>Schema validation (validation/schema-validator.ts)\<close>

fun join :: "string \<Rightarrow> string list \<Rightarrow> string" where
  "join sep [] = []"
| "join sep [x] = x"
| "join sep (x # y # ys) = x @ sep @ join sep (y # ys)"

definition ajv_error_json :: "ajv_error \<Rightarrow> json" where
  "ajv_error_json err =
     JObj [(''instancePath'', JStr (instancePath err)), (''schemaPath'', JStr (schemaPath err)),
           (''keyword'', JStr (keyword err)), (''params'', ajv_params err),
           (''message'', JStr (ajv_message err))]"

text \<open>\<open>validateToolInput\<close>: \<open>None\<close> when it returns the input, the error it throws otherwise.\<close>

definition validateToolInput :: "env \<Rightarrow> json \<Rightarrow> json \<Rightarrow> js_error option" where
  "validateToolInput e schema input =
     (case ajv_compile e schema of
        Inl m \<Rightarrow> Some (ValidationError ''Schema compilation failed''
                   (Some (obj [(''error'', Some (JStr m))])))
      | Inr validate \<Rightarrow>
          (case validate input of
             None \<Rightarrow> None
           | Some errs \<Rightarrow>
               (let errors = join '', '' (map (\<lambda>err. instancePath err @ '' '' @ ajv_message err) errs)
                in Some (ValidationError
                     (''Tool input validation failed: '' @ (if errors \<noteq> [] then errors else ''Invalid input''))
                     (Some (obj [(''errors'', Some (JArr (map ajv_error_json errs))),
                                 (''input'', Some input)]))))))"

section \<open>The JavaScript Map\<close>

text \<open>
  A \<open>Map\<close> keeps its entries in insertion order: \<open>set\<close> on a key that is present replaces
  the value where it stands, \<open>set\<close> on a new key appends, \<open>delete\<close> removes the entry.
\<close>

type_synonym ('k, 'v) js_map = "('k \<times> 'v) list"

definition Map_get :: "'k \<Rightarrow> ('k, 'v) js_map \<Rightarrow> 'v option" where
  "Map_get k m = map_of m k"

fun Map_set :: "'k \<Rightarrow> 'v \<Rightarrow> ('k, 'v) js_map \<Rightarrow> ('k, 'v) js_map" where
  "Map_set k v [] = [(k, v)]"
| "Map_set k v (kv # m) = (if fst kv = k then (k, v) # m else kv # Map_set k v m)"

definition Map_delete :: "'k \<Rightarrow> ('k, 'v) js_map \<Rightarrow> ('k, 'v) js_map" where
  "Map_delete k m = filter (\<lambda>kv. fst kv \<noteq> k) m"

definition Map_values :: "('k, 'v) js_map \<Rightarrow> 'v list" where
  "Map_values m = map snd m"

section \<open>The server (client/mcp-client.ts, class MCPServer)\<close>

text \<open>
  The class \<open>MCPServer\<close>, one message at a time: the handling of a message is taken as
  one step, and a handler of the application as a function that resolves or rejects. The
  lines the logger writes and the events the server emits to its listeners (\<open>initialized\<close>,
  \<open>close\<close>, \<open>shutdown\<close>) are not part of the state modelled; neither is the exit of the
  process that \<open>shutdown\<close> schedules.
\<close>

subsection \<open>Messages\<close>

datatype msg_id = IdNum int | IdStr string

record ErrorObject =
  code :: int
  message :: string
  data :: "json option"

text \<open>An inbound \<open>MCPMessage\<close>; a field that is \<open>undefined\<close> is \<open>None\<close>.\<close>

record MCPMessage =
  m_id :: "msg_id option"
  m_method :: "string option"
  m_params :: "json option"
  m_result :: "json option"
  m_error :: "ErrorObject option"

text \<open>
  Modelled from the spec: the declarations of \<open>types/mcp.ts\<close> (\<open>MCPTool\<close>, \<open>MCPResource\<close>,
  \<open>MCPPrompt\<close>, \<open>ServerCapabilities\<close>), which the server imports; the fields are those of
  the data model, an optional one as an option.
\<close>

record MCPTool =
  name :: string
  description :: string
  inputSchema :: "json option"

record MCPResource =
  uri :: string
  resource_name :: "string option"
  resource_description :: "string option"
  mimeType :: "string option"

record MCPPrompt =
  prompt_name :: string
  prompt_description :: "string option"
  arguments :: "json option"

record ServerCapabilities =
  logging :: "(string \<times> json) list"
  tools_listChanged :: bool
  resources_subscribe :: bool
  resources_listChanged :: bool
  prompts_listChanged :: bool

record ServerInfo =
  server_name :: string
  server_version :: string

record resource_read =
  contents :: json
  read_mimeType :: "string option"

text \<open>
  A handler belongs to the application: it resolves to a value (\<open>Inr\<close>) or rejects with an
  error (\<open>Inl\<close>).
\<close>

type_synonym ToolHandler = "json \<Rightarrow> js_error + json"
type_synonym ResourceHandler = "string \<Rightarrow> js_error + resource_read"
type_synonym PromptHandler = "json \<Rightarrow> js_error + json"

record ('d, 'h) entry =
  definition_of :: 'd
  handler :: 'h

text \<open>The results the method handlers build, by shape.\<close>

datatype result_value =
    InitializeResult string ServerCapabilities ServerInfo
  | ToolsListResult "MCPTool list"
  | ToolsCallResult string
  | ResourcesListResult "MCPResource list"
  | ResourcesReadResult string string string
  | PromptsListResult "MCPPrompt list"
  | PromptsGetResult json

text \<open>What the server writes: a result envelope, an error envelope or a request.\<close>

datatype out_message =
    ResultMessage msg_id result_value
  | ErrorMessage msg_id ErrorObject
  | RequestMessage nat string "json option"

subsection \<open>State\<close>

text \<open>The level of the logger: a member of the enum, or what the reverse mapping of the enum
  gives for a numeric key.\<close>

datatype LogLevel = DEBUG | INFO | WARN | ERROR

datatype level_value = Level LogLevel | LevelName string

datatype outcome = Resolved json | Rejected js_error

record pending =
  promise :: nat
  timeout :: nat

record timer =
  delay :: nat
  request :: nat

text \<open>
  The fields of the class, and the world it acts on: \<open>stdout\<close> is what was written, in order;
  \<open>timers\<close> holds the timers that are set and not cleared, by handle, each with its delay and
  the request id its callback closes over; \<open>promises\<close> is how each promise returned by
  \<open>sendRequest\<close> was settled (a promise settles once); \<open>handles\<close> is the next fresh handle
  (a promise and its timer share it); \<open>invocations\<close> records every call of a tool handler,
  with the argument it was given.
\<close>

record MCPServer =
  transport :: StdioTransport
  logLevel :: level_value
  initialized :: bool
  tools :: "(string, (MCPTool, ToolHandler) entry) js_map"
  resources :: "(string, (MCPResource, ResourceHandler) entry) js_map"
  prompts :: "(string, (MCPPrompt, PromptHandler) entry) js_map"
  requestId :: nat
  pendingRequests :: "(msg_id, pending) js_map"
  serverInfo :: ServerInfo
  stdout :: "out_message list"
  timers :: "(nat, timer) js_map"
  promises :: "nat \<Rightarrow> outcome option"
  handles :: nat
  invocations :: "(string \<times> json) list"

subsection \<open>JavaScript values at work\<close>

text \<open>Truthiness of a JSON value; \<open>undefined\<close> is falsy.\<close>

fun truthy :: "json \<Rightarrow> bool" where
  "truthy JNull = False"
| "truthy (JBool b) = b"
| "truthy (JNum n) = (n \<noteq> 0)"
| "truthy (JStr s) = (s \<noteq> [])"
| "truthy (JArr xs) = True"
| "truthy (JObj kvs) = True"

definition truthy_opt :: "json option \<Rightarrow> bool" where
  "truthy_opt v = (case v of None \<Rightarrow> False | Some j \<Rightarrow> truthy j)"

text \<open>
  Destructuring \<open>const { k } = params\<close>: a TypeError on \<open>undefined\<close> and \<open>null\<close>, the own
  properties of an object, and \<open>undefined\<close> for the keys read here on any other value.
\<close>

fun destructure :: "json option \<Rightarrow> js_error + (string \<Rightarrow> json option)" where
  "destructure None = Inl (TypeError ''params'')"
| "destructure (Some JNull) = Inl (TypeError ''params'')"
| "destructure (Some (JObj kvs)) = Inr (map_of kvs)"
| "destructure (Some v) = Inr (\<lambda>k. None)"

text \<open>A value inside a template literal.\<close>

definition template :: "env \<Rightarrow> json option \<Rightarrow> string" where
  "template e v =
     (case v of None \<Rightarrow> ''undefined'' | Some (JStr t) \<Rightarrow> t | Some j \<Rightarrow> String_of e j)"

text \<open>\<open>typeof v === 'string' ? v : JSON.stringify(v, null, 2)\<close>\<close>

definition text_of :: "env \<Rightarrow> json \<Rightarrow> string" where
  "text_of e v = (case v of JStr t \<Rightarrow> t | _ \<Rightarrow> JSON_stringify e v)"

text \<open>\<open>args || {}\<close>\<close>

definition or_empty :: "json option \<Rightarrow> json" where
  "or_empty args = (case args of None \<Rightarrow> JObj [] | Some a \<Rightarrow> (if truthy a then a else JObj []))"

text \<open>
  \<open>++n\<close> on a number that holds a natural number: exact below \<open>2^53\<close>, where the sum is
  rounded back to \<open>2^53\<close>; the counter starts at 0 and so never exceeds that.
\<close>

definition increment :: "nat \<Rightarrow> nat" where
  "increment n = (if n < 2 ^ 53 then n + 1 else n)"

subsection \<open>Sending\<close>

text \<open>
  \<open>transport.send\<close>: rejected on a closed transport, otherwise the line is written
  (standard output is taken to accept every write).
\<close>

definition send :: "out_message \<Rightarrow> MCPServer \<Rightarrow> js_error option \<times> MCPServer" where
  "send m s =
     (if closed (transport s) then (Some (Error ''Transport is closed''), s)
      else (None, s\<lparr>stdout := stdout s @ [m]\<rparr>))"

text \<open>
  The wire form of a caught error: an \<open>MCPError\<close> as it is, anything else as an
  \<open>INTERNAL_ERROR\<close> with its message.
\<close>

definition toJSON :: "env \<Rightarrow> js_error \<Rightarrow> ErrorObject" where
  "toJSON e err =
     (case err of
        MCPError c m d \<Rightarrow> \<lparr>code = c, message = m, data = d\<rparr>
      | _ \<Rightarrow> \<lparr>code = code_value INTERNAL_ERROR, message = error_message e err, data = None\<rparr>)"

definition sendResult :: "msg_id \<Rightarrow> result_value \<Rightarrow> MCPServer \<Rightarrow> js_error option \<times> MCPServer" where
  "sendResult i r s = send (ResultMessage i r) s"

definition sendError :: "msg_id \<Rightarrow> ErrorObject \<Rightarrow> MCPServer \<Rightarrow> js_error option \<times> MCPServer" where
  "sendError i err s = send (ErrorMessage i err) s"

subsection \<open>Method handlers\<close>

type_synonym 'a handled = "(js_error + 'a) \<times> MCPServer"

definition handleInitialize :: "json option \<Rightarrow> MCPServer \<Rightarrow> result_value handled" where
  "handleInitialize params s =
     (let capabilities = \<lparr>logging = [], tools_listChanged = True, resources_subscribe = True,
                           resources_listChanged = True, prompts_listChanged = True\<rparr>
      in (Inr (InitializeResult ''2024-11-05'' capabilities (serverInfo s)), s))"

definition handleInitialized :: "MCPServer \<Rightarrow> MCPServer" where
  "handleInitialized s = s\<lparr>initialized := True\<rparr>"

definition handleToolsList :: "MCPServer \<Rightarrow> result_value handled" where
  "handleToolsList s = (Inr (ToolsListResult (map definition_of (Map_values (tools s)))), s)"

text \<open>\<open>this.tools.get(name)\<close>: the keys are strings, so only a string finds an entry.\<close>

definition lookup :: "json option \<Rightarrow> (string, 'v) js_map \<Rightarrow> (string \<times> 'v) option" where
  "lookup k m =
     (case k of
        Some (JStr n) \<Rightarrow> map_option (Pair n) (Map_get n m)
      | _ \<Rightarrow> None)"

definition handleToolsCall :: "env \<Rightarrow> json option \<Rightarrow> MCPServer \<Rightarrow> result_value handled" where
  "handleToolsCall e params s =
     (case destructure params of
        Inl err \<Rightarrow> (Inl err, s)
      | Inr p \<Rightarrow>
          (let nm = p ''name''; args = p ''arguments'' in
           case lookup nm (tools s) of
             None \<Rightarrow> (Inl (MCPError (code_value METHOD_NOT_FOUND)
                              (''Tool not found: '' @ template e nm) None), s)
           | Some (n, tool) \<Rightarrow>
               (let failed = (\<lambda>err. ToolExecutionError
                                (''Tool execution failed: '' @ error_message e err)
                                (Some (obj [(''tool'', nm), (''arguments'', args)])));
                    invalid = (case (inputSchema (definition_of tool), args) of
                                 (Some schema, Some a) \<Rightarrow>
                                   (if truthy schema \<and> truthy a then validateToolInput e schema a
                                    else None)
                               | _ \<Rightarrow> None)
                in case invalid of
                     Some err \<Rightarrow> (Inl (failed err), s)
                   | None \<Rightarrow>
                       (let s' = s\<lparr>invocations := invocations s @ [(n, or_empty args)]\<rparr> in
                        case handler tool (or_empty args) of
                          Inl err \<Rightarrow> (Inl (failed err), s')
                        | Inr r \<Rightarrow> (Inr (ToolsCallResult (text_of e r)), s')))))"

definition handleResourcesList :: "MCPServer \<Rightarrow> result_value handled" where
  "handleResourcesList s =
     (Inr (ResourcesListResult (map definition_of (Map_values (resources s)))), s)"

definition handleResourcesRead :: "env \<Rightarrow> json option \<Rightarrow> MCPServer \<Rightarrow> result_value handled" where
  "handleResourcesRead e params s =
     (case destructure params of
        Inl err \<Rightarrow> (Inl err, s)
      | Inr p \<Rightarrow>
          (case lookup (p ''uri'') (resources s) of
             None \<Rightarrow> (Inl (MCPError (code_value RESOURCE_NOT_FOUND)
                              (''Resource not found: '' @ template e (p ''uri'')) None), s)
           | Some (u, resource) \<Rightarrow>
               (case handler resource u of
                  Inl err \<Rightarrow> (Inl (MCPError (code_value INTERNAL_ERROR)
                                   (''Failed to read resource: '' @ error_message e err)
                                   (Some (obj [(''uri'', p ''uri'')]))), s)
                | Inr r \<Rightarrow>
                    (Inr (ResourcesReadResult u
                            (case read_mimeType r of
                               Some t \<Rightarrow> (if t \<noteq> [] then t else ''text/plain'')
                             | None \<Rightarrow> ''text/plain'')
                            (text_of e (contents r))), s))))"

definition handlePromptsList :: "MCPServer \<Rightarrow> result_value handled" where
  "handlePromptsList s =
     (Inr (PromptsListResult (map definition_of (Map_values (prompts s)))), s)"

definition handlePromptsGet :: "env \<Rightarrow> json option \<Rightarrow> MCPServer \<Rightarrow> result_value handled" where
  "handlePromptsGet e params s =
     (case destructure params of
        Inl err \<Rightarrow> (Inl err, s)
      | Inr p \<Rightarrow>
          (let nm = p ''name''; args = p ''arguments'' in
           case lookup nm (prompts s) of
             None \<Rightarrow> (Inl (MCPError (code_value METHOD_NOT_FOUND)
                              (''Prompt not found: '' @ template e nm) None), s)
           | Some (n, prompt) \<Rightarrow>
               (case handler prompt (or_empty args) of
                  Inl err \<Rightarrow> (Inl (MCPError (code_value INTERNAL_ERROR)
                                   (''Prompt execution failed: '' @ error_message e err)
                                   (Some (obj [(''prompt'', nm), (''arguments'', args)]))), s)
                | Inr r \<Rightarrow> (Inr (PromptsGetResult r), s))))"

text \<open>
  \<open>LogLevel[key]\<close> on the compiled numeric enum: a name gives its number, and the text of a
  number gives its name.
\<close>

definition LogLevel_index :: "string \<Rightarrow> level_value option" where
  "LogLevel_index k =
     (if k = ''DEBUG'' then Some (Level DEBUG)
      else if k = ''INFO'' then Some (Level INFO)
      else if k = ''WARN'' then Some (Level WARN)
      else if k = ''ERROR'' then Some (Level ERROR)
      else if k = ''0'' then Some (LevelName ''DEBUG'')
      else if k = ''1'' then Some (LevelName ''INFO'')
      else if k = ''2'' then Some (LevelName ''WARN'')
      else if k = ''3'' then Some (LevelName ''ERROR'')
      else None)"

definition handleLoggingSetLevel :: "env \<Rightarrow> json option \<Rightarrow> MCPServer \<Rightarrow> js_error option \<times> MCPServer" where
  "handleLoggingSetLevel e params s =
     (case destructure params of
        Inl err \<Rightarrow> (Some err, s)
      | Inr p \<Rightarrow>
          (case p ''level'' of
             Some (JStr level) \<Rightarrow>
               (case LogLevel_index (toUpperCase e level) of
                  Some l \<Rightarrow> (None, s\<lparr>logLevel := l\<rparr>)
                | None \<Rightarrow> (None, s))
           | _ \<Rightarrow> (Some (TypeError ''level.toUpperCase''), s)))"

subsection \<open>Dispatch\<close>

text \<open>
  The \<open>switch\<close> of \<open>handleRequest\<close>: a method that returns without a response, one that
  yields a result, or an error thrown on the way.
\<close>

datatype dispatched = Returned | Result result_value | Thrown js_error

definition of_handled :: "result_value handled \<Rightarrow> dispatched \<times> MCPServer" where
  "of_handled h = (case fst h of Inl err \<Rightarrow> (Thrown err, snd h) | Inr r \<Rightarrow> (Result r, snd h))"

definition dispatch :: "env \<Rightarrow> string option \<Rightarrow> json option \<Rightarrow> MCPServer \<Rightarrow> dispatched \<times> MCPServer" where
  "dispatch e method params s =
     (if method = Some ''initialize'' then of_handled (handleInitialize params s)
      else if method = Some ''initialized'' then (Returned, handleInitialized s)
      else if method = Some ''tools/list'' then of_handled (handleToolsList s)
      else if method = Some ''tools/call'' then of_handled (handleToolsCall e params s)
      else if method = Some ''resources/list'' then of_handled (handleResourcesList s)
      else if method = Some ''resources/read'' then of_handled (handleResourcesRead e params s)
      else if method = Some ''prompts/list'' then of_handled (handlePromptsList s)
      else if method = Some ''prompts/get'' then of_handled (handlePromptsGet e params s)
      else if method = Some ''logging/setLevel'' then
        (case handleLoggingSetLevel e params s of
           (None, s') \<Rightarrow> (Returned, s')
         | (Some err, s') \<Rightarrow> (Thrown err, s'))
      else (Thrown (MCPError (code_value METHOD_NOT_FOUND)
                     (''Method not found: '' @ (case method of None \<Rightarrow> ''undefined'' | Some m \<Rightarrow> m))
                     None), s))"

text \<open>
  \<open>handleRequest\<close>: the first component is the error the returned promise rejects with, if
  it does. A failure of \<open>sendResult\<close> falls into the \<open>catch\<close> like any other error.
\<close>

definition handleRequest :: "env \<Rightarrow> MCPMessage \<Rightarrow> MCPServer \<Rightarrow> js_error option \<times> MCPServer" where
  "handleRequest e msg s =
     (let caught = (\<lambda>err s'. case m_id msg of
                                 Some i \<Rightarrow> sendError i (toJSON e err) s'
                               | None \<Rightarrow> (None, s'))
      in case dispatch e (m_method msg) (m_params msg) s of
           (Returned, s') \<Rightarrow> (None, s')
         | (Thrown err, s') \<Rightarrow> caught err s'
         | (Result r, s') \<Rightarrow>
             (case m_id msg of
                Some i \<Rightarrow>
                  (case sendResult i r s' of
                     (None, s'') \<Rightarrow> (None, s'')
                   | (Some err, s'') \<Rightarrow> caught err s'')
              | None \<Rightarrow> (None, s')))"

subsection \<open>Responses to outbound requests\<close>

definition settle :: "nat \<Rightarrow> outcome \<Rightarrow> MCPServer \<Rightarrow> MCPServer" where
  "settle p out s =
     (case promises s p of
        None \<Rightarrow> s\<lparr>promises := (promises s)(p \<mapsto> out)\<rparr>
      | Some _ \<Rightarrow> s)"

definition clearTimeout :: "nat \<Rightarrow> MCPServer \<Rightarrow> MCPServer" where
  "clearTimeout h s = s\<lparr>timers := Map_delete h (timers s)\<rparr>"

definition handleResponse :: "msg_id \<Rightarrow> json \<Rightarrow> MCPServer \<Rightarrow> MCPServer" where
  "handleResponse i r s =
     (case Map_get i (pendingRequests s) of
        Some pending \<Rightarrow>
          settle (promise pending) (Resolved r)
            ((clearTimeout (timeout pending) s)
               \<lparr>pendingRequests := Map_delete i (pendingRequests s)\<rparr>)
      | None \<Rightarrow> s)"

definition handleErrorResponse :: "msg_id \<Rightarrow> ErrorObject \<Rightarrow> MCPServer \<Rightarrow> MCPServer" where
  "handleErrorResponse i err s =
     (case Map_get i (pendingRequests s) of
        Some pending \<Rightarrow>
          settle (promise pending) (Rejected (MCPError (code err) (message err) (data err)))
            ((clearTimeout (timeout pending) s)
               \<lparr>pendingRequests := Map_delete i (pendingRequests s)\<rparr>)
      | None \<Rightarrow> s)"

text \<open>
  \<open>handleMessage\<close>: the first component is the error the returned promise rejects with, if
  it does (the \<open>catch\<close> sends an error of its own, and that send can fail too).
\<close>

definition handleMessage :: "env \<Rightarrow> MCPMessage \<Rightarrow> MCPServer \<Rightarrow> js_error option \<times> MCPServer" where
  "handleMessage e msg s =
     (case (m_id msg, m_result msg, m_error msg) of
        (Some i, Some r, _) \<Rightarrow> (None, handleResponse i r s)
      | (Some i, None, Some err) \<Rightarrow> (None, handleErrorResponse i err s)
      | _ \<Rightarrow>
          (if m_method msg \<noteq> None \<and> m_method msg \<noteq> Some [] then
             (case handleRequest e msg s of
                (None, s') \<Rightarrow> (None, s')
              | (Some err, s') \<Rightarrow>
                  (case m_id msg of
                     Some i \<Rightarrow>
                       sendError i \<lparr>code = code_value INTERNAL_ERROR,
                                     message = ''Internal server error'',
                                     data = Some (obj [(''originalError'',
                                                       Some (JStr (error_message e err)))])\<rparr> s'
                   | None \<Rightarrow> (None, s')))
           else (None, s)))"

text \<open>What the server writes while it handles one message.\<close>

definition responses :: "env \<Rightarrow> MCPMessage \<Rightarrow> MCPServer \<Rightarrow> out_message list" where
  "responses e msg s = drop (length (stdout s)) (stdout (snd (handleMessage e msg s)))"

subsection \<open>Outbound requests\<close>

text \<open>
  \<open>sendRequest\<close>: the result is the id assigned and the handle of the promise returned. A
  failed send rejects the promise and leaves the entry and its timer in place.
\<close>

definition sendRequest :: "string \<Rightarrow> json option \<Rightarrow> nat option \<Rightarrow> MCPServer \<Rightarrow> (nat \<times> nat) \<times> MCPServer" where
  "sendRequest method params timeout_ms s =
     (let ms = (case timeout_ms of None \<Rightarrow> 30000 | Some t \<Rightarrow> t);
          i = increment (requestId s);
          h = handles s;
          s1 = s\<lparr>requestId := i, handles := Suc h\<rparr>;
          s2 = s1\<lparr>timers := Map_set h \<lparr>delay = ms, request = i\<rparr> (timers s1)\<rparr>;
          s3 = s2\<lparr>pendingRequests :=
                    Map_set (IdNum (int i)) \<lparr>promise = h, timeout = h\<rparr> (pendingRequests s2)\<rparr>
      in case send (RequestMessage i method params) s3 of
           (None, s4) \<Rightarrow> ((i, h), s4)
         | (Some err, s4) \<Rightarrow> ((i, h), settle h (Rejected err) s4))"

text \<open>The deadline timer with handle \<open>h\<close> fires: its callback runs, if it is still set.\<close>

definition timer_fires :: "nat \<Rightarrow> MCPServer \<Rightarrow> MCPServer" where
  "timer_fires h s =
     (case Map_get h (timers s) of
        None \<Rightarrow> s
      | Some t \<Rightarrow>
          settle h (Rejected (MCPError (code_value TIMEOUT_ERROR) ''Request timeout'' None))
            (s\<lparr>timers := Map_delete h (timers s),
               pendingRequests := Map_delete (IdNum (int (request t))) (pendingRequests s)\<rparr>))"

subsection \<open>Registration and shutdown\<close>

definition addTool :: "MCPTool \<Rightarrow> ToolHandler \<Rightarrow> MCPServer \<Rightarrow> MCPServer" where
  "addTool d h s = s\<lparr>tools := Map_set (name d) \<lparr>definition_of = d, handler = h\<rparr> (tools s)\<rparr>"

definition addResource :: "MCPResource \<Rightarrow> ResourceHandler \<Rightarrow> MCPServer \<Rightarrow> MCPServer" where
  "addResource d h s =
     s\<lparr>resources := Map_set (uri d) \<lparr>definition_of = d, handler = h\<rparr> (resources s)\<rparr>"

definition addPrompt :: "MCPPrompt \<Rightarrow> PromptHandler \<Rightarrow> MCPServer \<Rightarrow> MCPServer" where
  "addPrompt d h s =
     s\<lparr>prompts := Map_set (prompt_name d) \<lparr>definition_of = d, handler = h\<rparr> (prompts s)\<rparr>"

definition removeTool :: "string \<Rightarrow> MCPServer \<Rightarrow> MCPServer" where
  "removeTool n s = s\<lparr>tools := Map_delete n (tools s)\<rparr>"

definition removeResource :: "string \<Rightarrow> MCPServer \<Rightarrow> MCPServer" where
  "removeResource u s = s\<lparr>resources := Map_delete u (resources s)\<rparr>"

definition removePrompt :: "string \<Rightarrow> MCPServer \<Rightarrow> MCPServer" where
  "removePrompt n s = s\<lparr>prompts := Map_delete n (prompts s)\<rparr>"

text \<open>The loop of \<open>shutdown\<close> over the pending entries, in the order of the table.\<close>

fun reject_all :: "(msg_id, pending) js_map \<Rightarrow> MCPServer \<Rightarrow> MCPServer" where
  "reject_all [] s = s"
| "reject_all (kv # rest) s =
     reject_all rest
       (settle (promise (snd kv)) (Rejected (Error ''Server shutting down''))
          (clearTimeout (timeout (snd kv)) s))"

definition shutdown :: "MCPServer \<Rightarrow> MCPServer" where
  "shutdown s =
     (let s1 = reject_all (pendingRequests s) s;
          s2 = s1\<lparr>pendingRequests := []\<rparr>
      in s2\<lparr>transport := fst (close (transport s2))\<rparr>)"

text \<open>The constructor: \<open>options.logLevel || LogLevel.INFO\<close> takes \<open>DEBUG\<close>, which is 0, for unset.\<close>

definition MCPServer_new :: "LogLevel option \<Rightarrow> ServerInfo option \<Rightarrow> MCPServer" where
  "MCPServer_new level info =
     \<lparr>transport = StdioTransport_new,
      logLevel = Level (case level of None \<Rightarrow> INFO | Some DEBUG \<Rightarrow> INFO | Some l \<Rightarrow> l),
      initialized = False,
      tools = [], resources = [], prompts = [],
      requestId = 0,
      pendingRequests = [],
      serverInfo = (case info of
                      None \<Rightarrow> \<lparr>server_name = ''MCP Server'', server_version = ''1.0.0''\<rparr>
                    | Some i \<Rightarrow> i),
      stdout = [], timers = [], promises = (\<lambda>p. None), handles = 0, invocations = []\<rparr>"

section \<open>Authentication (middleware/auth.ts)\<close>

text \<open>
  The validator is the application's: its promise resolves to a boolean (\<open>Inr\<close>) or rejects
  with an error (\<open>Inl\<close>).
\<close>

record AuthConfig =
  apiKeys :: "string list option"
  allowAnonymous :: "bool option"
  customValidator :: "(string \<Rightarrow> js_error + bool) option"

text \<open>\<open>split\<close> on a one-character separator: the pieces between the occurrences.\<close>

fun split :: "char \<Rightarrow> string \<Rightarrow> string list" where
  "split sep [] = [[]]"
| "split sep (c # cs) =
     (if c = sep then [] # split sep cs
      else (case split sep cs of [] \<Rightarrow> [[c]] | p # ps \<Rightarrow> (c # p) # ps))"

definition extractToken :: "env \<Rightarrow> string \<Rightarrow> string" where
  "extractToken e authHeader =
     (case split CHR '' '' authHeader of
        [scheme, token] \<Rightarrow> (if toLowerCase e scheme = ''bearer'' then token else authHeader)
      | _ \<Rightarrow> authHeader)"

text \<open>
  \<open>authenticate\<close>: \<open>None\<close> when the promise resolves, the error it rejects with otherwise.
  The validator is awaited outside any \<open>try\<close>: when it rejects, so does \<open>authenticate\<close>, with
  the same error.
  \<open>headers?.authorization\<close> is the value under that key, falsy when it is the empty string.
\<close>

definition authorization :: "(string \<times> string) list option \<Rightarrow> string option" where
  "authorization headers =
     (case headers of None \<Rightarrow> None | Some h \<Rightarrow> map_of h ''authorization'')"

definition authenticate :: "env \<Rightarrow> AuthConfig \<Rightarrow> (string \<times> string) list option \<Rightarrow> js_error option" where
  "authenticate e config headers =
     (let authHeader = authorization headers;
          required = Some (MCPError (code_value PERMISSION_DENIED) ''Authentication required'' None)
      in if allowAnonymous config = Some True \<and> (authHeader = None \<or> authHeader = Some []) then None
         else
           (case authHeader of
              None \<Rightarrow> required
            | Some a \<Rightarrow>
                (if a = [] then required
                 else
                   (let token = extractToken e a in
                    case customValidator config of
                      Some validator \<Rightarrow>
                        (case validator token of
                           Inl err \<Rightarrow> Some err
                         | Inr isValid \<Rightarrow>
                             (if \<not> isValid then
                                Some (MCPError (code_value PERMISSION_DENIED)
                                        ''Invalid authentication token'' None)
                              else None))
                    | None \<Rightarrow>
                        (if (case apiKeys config of None \<Rightarrow> False | Some keys \<Rightarrow> token \<in> set keys)
                         then None
                         else Some (MCPError (code_value PERMISSION_DENIED)
                                      ''Invalid authentication credentials'' None))))))"

section \<open>The framing as the specification words it\<close>







section \<open>Registration sequences\<close>

datatype registration =
    AddTool MCPTool ToolHandler
  | RemoveTool string
  | AddResource MCPResource ResourceHandler
  | RemoveResource string
  | AddPrompt MCPPrompt PromptHandler
  | RemovePrompt string

fun register :: "registration \<Rightarrow> MCPServer \<Rightarrow> MCPServer" where
  "register (AddTool d h) s = addTool d h s"
| "register (RemoveTool n) s = removeTool n s"
| "register (AddResource d h) s = addResource d h s"
| "register (RemoveResource u) s = removeResource u s"
| "register (AddPrompt d h) s = addPrompt d h s"
| "register (RemovePrompt n) s = removePrompt n s"

section \<open>The registry as the specification words it\<close>

text \<open>
  What a sequence of registrations asks of one registry: adding under a key, removing a key.
\<close>

datatype ('d, 'h) reg_op = Add 'd 'h | Remove string

fun tool_ops :: "registration list \<Rightarrow> (MCPTool, ToolHandler) reg_op list" where
  "tool_ops [] = []"
| "tool_ops (AddTool d h # ops) = Add d h # tool_ops ops"
| "tool_ops (RemoveTool n # ops) = Remove n # tool_ops ops"
| "tool_ops (_ # ops) = tool_ops ops"

fun resource_ops :: "registration list \<Rightarrow> (MCPResource, ResourceHandler) reg_op list" where
  "resource_ops [] = []"
| "resource_ops (AddResource d h # ops) = Add d h # resource_ops ops"
| "resource_ops (RemoveResource u # ops) = Remove u # resource_ops ops"
| "resource_ops (_ # ops) = resource_ops ops"

fun prompt_ops :: "registration list \<Rightarrow> (MCPPrompt, PromptHandler) reg_op list" where
  "prompt_ops [] = []"
| "prompt_ops (AddPrompt d h # ops) = Add d h # prompt_ops ops"
| "prompt_ops (RemovePrompt n # ops) = Remove n # prompt_ops ops"
| "prompt_ops (_ # ops) = prompt_ops ops"

text \<open>
  The history of a registry: the keys that are registered, in the order they were inserted,
  and for each key the definition registered last. Registering a key that is present
  replaces its definition and keeps its place; removing a key forgets both.
\<close>

fun spec_step :: "('d \<Rightarrow> string) \<Rightarrow> ('d, 'h) reg_op \<Rightarrow>
    string list \<times> (string \<rightharpoonup> ('d, 'h) entry) \<Rightarrow> string list \<times> (string \<rightharpoonup> ('d, 'h) entry)" where
  "spec_step key (Add d h) (ks, m) =
     ((if m (key d) = None then ks @ [key d] else ks),
      m(key d \<mapsto> \<lparr>definition_of = d, handler = h\<rparr>))"
| "spec_step key (Remove n) (ks, m) = (removeAll n ks, m(n := None))"

definition spec_entry :: "('d \<Rightarrow> string) \<Rightarrow> ('d, 'h) reg_op list \<Rightarrow> string \<Rightarrow> ('d, 'h) entry option" where
  "spec_entry key ops k = snd (fold (spec_step key) ops ([], Map.empty)) k"

definition spec_list :: "('d \<Rightarrow> string) \<Rightarrow> ('d, 'h) reg_op list \<Rightarrow> 'd list" where
  "spec_list key ops =
     (let r = fold (spec_step key) ops ([], Map.empty)
      in List.map_filter (\<lambda>k. map_option definition_of (snd r k)) (fst r))"

text \<open>One operation on a \<open>Map\<close>, as \<open>add*\<close> and \<open>remove*\<close> perform it.\<close>

fun Map_op :: "('d \<Rightarrow> string) \<Rightarrow> ('d, 'h) reg_op \<Rightarrow>
    (string, ('d, 'h) entry) js_map \<Rightarrow> (string, ('d, 'h) entry) js_map" where
  "Map_op key (Add d h) m = Map_set (key d) \<lparr>definition_of = d, handler = h\<rparr> m"
| "Map_op key (Remove n) m = Map_delete n m"

section \<open>Runs of the endpoint\<close>

text \<open>
  What can happen to the endpoint, one event at a time: the application issues a request
  (method, parameters, timeout), a message arrives, a deadline timer fires, the endpoint
  shuts down, the application registers or removes something. A run collects the ids that
  \<open>sendRequest\<close> assigned, in order.
\<close>

datatype action =
    Request string "json option" "nat option"
  | Receive MCPMessage
  | TimerFires nat
  | Shutdown
  | Register registration

fun act :: "env \<Rightarrow> action \<Rightarrow> MCPServer \<Rightarrow> nat list \<times> MCPServer" where
  "act e (Request m p t) s = ([fst (fst (sendRequest m p t s))], snd (sendRequest m p t s))"
| "act e (Receive msg) s = ([], snd (handleMessage e msg s))"
| "act e (TimerFires h) s = ([], timer_fires h s)"
| "act e Shutdown s = ([], shutdown s)"
| "act e (Register r) s = ([], register r s)"

fun run :: "env \<Rightarrow> action list \<Rightarrow> MCPServer \<Rightarrow> nat list \<times> MCPServer" where
  "run e [] s = ([], s)"
| "run e (a # as) s =
     (fst (act e a s) @ fst (run e as (snd (act e a s))), snd (run e as (snd (act e a s))))"

section \<open>Built-ins for the examples\<close>

text \<open>
  Stand-ins for the built-ins, for evaluating the model at the concrete inputs of the
  examples below: exact on those inputs, placeholders elsewhere. Letters are mapped within
  ASCII; the validator checks \<open>required\<close> only, and reports a missing property the way
  Ajv does.
\<close>

definition ascii_lower :: "string \<Rightarrow> string" where
  "ascii_lower t =
     map (\<lambda>c. if 65 \<le> (of_char c :: nat) \<and> (of_char c :: nat) \<le> 90
               then (case c of Char b0 b1 b2 b3 b4 b5 b6 b7 \<Rightarrow> Char b0 b1 b2 b3 b4 True b6 b7)
               else c) t"

definition ascii_upper :: "string \<Rightarrow> string" where
  "ascii_upper t =
     map (\<lambda>c. if 97 \<le> (of_char c :: nat) \<and> (of_char c :: nat) \<le> 122
               then (case c of Char b0 b1 b2 b3 b4 b5 b6 b7 \<Rightarrow> Char b0 b1 b2 b3 b4 False b6 b7)
               else c) t"

definition missing_property :: "string \<Rightarrow> ajv_error" where
  "missing_property k =
     \<lparr>instancePath = [], schemaPath = ''#/required'', keyword = ''required'',
      ajv_params = JObj [(''missingProperty'', JStr k)],
      ajv_message = ''must have required property '' @ [CHR 0x27] @ k @ [CHR 0x27]\<rparr>"

fun required_keys :: "json \<Rightarrow> string list" where
  "required_keys (JObj kvs) =
     (case map_of kvs ''required'' of
        Some (JArr ks) \<Rightarrow> List.map_filter (\<lambda>k. case k of JStr t \<Rightarrow> Some t | _ \<Rightarrow> None) ks
      | _ \<Rightarrow> [])"
| "required_keys v = []"

fun check_required :: "json \<Rightarrow> json \<Rightarrow> ajv_error list option" where
  "check_required schema (JObj kvs) =
     (case filter (\<lambda>k. map_of kvs k = None) (required_keys schema) of
        [] \<Rightarrow> None
      | ks \<Rightarrow> Some (map missing_property ks))"
| "check_required schema v = None"

definition example_env :: env where
  "example_env =
     \<lparr>JSON_parse = (\<lambda>t. if t = ''{}'' then Some (JObj []) else None),
      JSON_stringify = (\<lambda>v. case v of JNull \<Rightarrow> ''null'' | JObj [] \<Rightarrow> ''{}'' | _ \<Rightarrow> []),
      String_of = (\<lambda>v. case v of JNull \<Rightarrow> ''null'' | _ \<Rightarrow> []),
      toUpperCase = ascii_upper,
      toLowerCase = ascii_lower,
      TypeError_message = (\<lambda>site. ''Cannot read properties of '' @ site),
      ajv_compile = (\<lambda>schema. Inr (check_required schema))\<rparr>"

text \<open>
  The tool of the specification's scenarios: \<open>add\<close>, which requires \<open>a\<close> and \<open>b\<close>. Its
  handler adds them; on anything else the sum is NaN, which is \<open>null\<close> in JSON.
\<close>

definition add_schema :: json where
  "add_schema =
     JObj [(''type'', JStr ''object''),
           (''properties'', JObj [(''a'', JObj [(''type'', JStr ''number'')]),
                                  (''b'', JObj [(''type'', JStr ''number'')])]),
           (''required'', JArr [JStr ''a'', JStr ''b''])]"

definition add_tool :: MCPTool where
  "add_tool = \<lparr>name = ''add'', description = ''Add two numbers'', inputSchema = Some add_schema\<rparr>"

definition add_handler :: ToolHandler where
  "add_handler v =
     (case v of
        JObj kvs \<Rightarrow>
          (case (map_of kvs ''a'', map_of kvs ''b'') of
             (Some (JNum a), Some (JNum b)) \<Rightarrow> Inr (JNum (a + b))
           | _ \<Rightarrow> Inr JNull)
      | _ \<Rightarrow> Inr JNull)"


section \<open>Validation of tool arguments, as the specification words it\<close>


section \<open>Properties of the transport\<close>















section \<open>Properties of the registries\<close>

lemma Map_set_keys:
  "map fst (Map_set k v m) = (if k \<in> fst ` set m then map fst m else map fst m @ [k])"
  by (induction m) auto

lemma Map_set_map_of: "distinct (map fst m) \<Longrightarrow> map_of (Map_set k v m) = (map_of m)(k \<mapsto> v)"
  by (induction m) (auto simp: fun_upd_twist)

lemma Map_delete_keys: "map fst (Map_delete k m) = removeAll k (map fst m)"
  by (induction m) (auto simp: Map_delete_def)

lemma Map_delete_map_of: "map_of (Map_delete k m) = (map_of m)(k := None)"
  by (induction m) (auto simp: Map_delete_def)

lemma Map_op_refines:
  assumes "distinct (map fst m)"
  shows "distinct (map fst (Map_op key op m)) \<and>
         spec_step key op (map fst m, map_of m) =
           (map fst (Map_op key op m), map_of (Map_op key op m))"
proof (cases op)
  case (Add d h)
  then show ?thesis using assms
    by (auto simp: Map_set_keys Map_set_map_of map_of_eq_None_iff)
next
  case (Remove n)
  then show ?thesis using assms
    by (auto simp: Map_delete_keys Map_delete_map_of distinct_removeAll)
qed

lemma fold_Map_op_refines:
  assumes "distinct (map fst m)"
  shows "distinct (map fst (fold (Map_op key) ops m)) \<and>
         fold (spec_step key) ops (map fst m, map_of m) =
           (map fst (fold (Map_op key) ops m), map_of (fold (Map_op key) ops m))"
  using assms
proof (induction ops arbitrary: m)
  case Nil
  then show ?case by simp
next
  case (Cons op ops)
  from Map_op_refines [OF Cons.prems, of key op]
  have d: "distinct (map fst (Map_op key op m))"
    and st: "spec_step key op (map fst m, map_of m) =
               (map fst (Map_op key op m), map_of (Map_op key op m))"
    by auto
  show ?case using Cons.IH [OF d] by (simp add: st)
qed

lemmas registration_defs =
  addTool_def removeTool_def addResource_def removeResource_def addPrompt_def removePrompt_def

lemma tools_fold: "tools (fold register ops s) = fold (Map_op name) (tool_ops ops) (tools s)"
proof (induction ops arbitrary: s)
  case Nil
  show ?case by simp
next
  case (Cons op ops)
  show ?case by (cases op) (simp_all add: Cons.IH registration_defs)
qed

lemma resources_fold:
  "resources (fold register ops s) = fold (Map_op uri) (resource_ops ops) (resources s)"
proof (induction ops arbitrary: s)
  case Nil
  show ?case by simp
next
  case (Cons op ops)
  show ?case by (cases op) (simp_all add: Cons.IH registration_defs)
qed

lemma prompts_fold:
  "prompts (fold register ops s) = fold (Map_op prompt_name) (prompt_ops ops) (prompts s)"
proof (induction ops arbitrary: s)
  case Nil
  show ?case by simp
next
  case (Cons op ops)
  show ?case by (cases op) (simp_all add: Cons.IH registration_defs)
qed

lemma values_by_keys_gen:
  "(\<And>k v. (k, v) \<in> set m \<Longrightarrow> g k = Some v) \<Longrightarrow>
   List.map_filter (\<lambda>k. map_option f (g k)) (map fst m) = map f (map snd m)"
proof (induction m)
  case Nil
  show ?case by (simp add: List.map_filter_simps)
next
  case (Cons kv m)
  have here: "g (fst kv) = Some (snd kv)"
    using Cons.prems [of "fst kv" "snd kv"] by simp
  have rest: "List.map_filter (\<lambda>k. map_option f (g k)) (map fst m) = map f (map snd m)"
    using Cons.prems by (intro Cons.IH) simp
  show ?case using rest by (simp add: List.map_filter_simps here)
qed

lemma values_by_keys:
  "distinct (map fst m) \<Longrightarrow>
   List.map_filter (\<lambda>k. map_option f (map_of m k)) (map fst m) = map f (map snd m)"
  by (rule values_by_keys_gen) simp

lemma registry_entry: "Map_get k (fold (Map_op key) ops []) = spec_entry key ops k"
  using fold_Map_op_refines [of "[]" key ops]
  by (simp add: Map_get_def spec_entry_def)

lemma registry_list:
  "map definition_of (Map_values (fold (Map_op key) ops [])) = spec_list key ops"
  using fold_Map_op_refines [of "[]" key ops]
  by (simp add: spec_list_def Map_values_def values_by_keys)

lemma Map_delete_absent: "Map_get k m = None \<Longrightarrow> Map_delete k m = m"
  by (induction m) (auto simp: Map_get_def Map_delete_def split: if_splits)

text \<open>
  C7. After any sequence of registrations on a new server, each key of each registry maps
  to the definition registered last under it, or to nothing when it was removed last;
  \<open>tools/list\<close>, \<open>resources/list\<close> and \<open>prompts/list\<close> give the registered definitions in
  insertion order; and removing a key that is absent changes nothing.
\<close>

theorem registry_last_writer_wins:
  "Map_get k (tools (fold register ops (MCPServer_new level info))) = spec_entry name (tool_ops ops) k
   \<and> Map_get k (resources (fold register ops (MCPServer_new level info)))
       = spec_entry uri (resource_ops ops) k
   \<and> Map_get k (prompts (fold register ops (MCPServer_new level info)))
       = spec_entry prompt_name (prompt_ops ops) k
   \<and> fst (handleToolsList (fold register ops (MCPServer_new level info)))
       = Inr (ToolsListResult (spec_list name (tool_ops ops)))
   \<and> fst (handleResourcesList (fold register ops (MCPServer_new level info)))
       = Inr (ResourcesListResult (spec_list uri (resource_ops ops)))
   \<and> fst (handlePromptsList (fold register ops (MCPServer_new level info)))
       = Inr (PromptsListResult (spec_list prompt_name (prompt_ops ops)))
   \<and> (Map_get n (tools s) = None \<longrightarrow> removeTool n s = s)
   \<and> (Map_get n (resources s) = None \<longrightarrow> removeResource n s = s)
   \<and> (Map_get n (prompts s) = None \<longrightarrow> removePrompt n s = s)"
proof -
  have empty: "tools (MCPServer_new level info) = []" "resources (MCPServer_new level info) = []"
    "prompts (MCPServer_new level info) = []"
    by (simp_all add: MCPServer_new_def)
  show ?thesis
    by (simp add: tools_fold resources_fold prompts_fold empty registry_entry registry_list
        handleToolsList_def handleResourcesList_def handlePromptsList_def
        removeTool_def removeResource_def removePrompt_def Map_delete_absent)
qed

theorem registry_last_writer_wins_witness:
  "fst (handleToolsList (fold register
      [AddTool \<lparr>name = ''a'', description = ''first'', inputSchema = None\<rparr> (\<lambda>v. Inr v),
       AddTool \<lparr>name = ''b'', description = ''other'', inputSchema = None\<rparr> (\<lambda>v. Inr v),
       AddTool \<lparr>name = ''a'', description = ''second'', inputSchema = None\<rparr> (\<lambda>v. Inr v),
       RemoveTool ''b'',
       AddTool \<lparr>name = ''b'', description = ''again'', inputSchema = None\<rparr> (\<lambda>v. Inr v)]
      (MCPServer_new None None)))
     = Inr (ToolsListResult
         [\<lparr>name = ''a'', description = ''second'', inputSchema = None\<rparr>,
          \<lparr>name = ''b'', description = ''again'', inputSchema = None\<rparr>])
   \<and> Map_get ''c'' (tools (MCPServer_new None None)) = None
   \<and> removeTool ''c'' (MCPServer_new None None) = MCPServer_new None None
   \<and> Map_get ''c'' (resources (MCPServer_new None None)) = None
   \<and> removeResource ''c'' (MCPServer_new None None) = MCPServer_new None None
   \<and> Map_get ''c'' (prompts (MCPServer_new None None)) = None
   \<and> removePrompt ''c'' (MCPServer_new None None) = MCPServer_new None None"
proof -
  have absent: "Map_get ''c'' (tools (MCPServer_new None None)) = None"
    "Map_get ''c'' (resources (MCPServer_new None None)) = None"
    "Map_get ''c'' (prompts (MCPServer_new None None)) = None"
    by (simp_all add: MCPServer_new_def Map_get_def)
  show ?thesis
    using registry_last_writer_wins [of "''c''" "[AddTool \<lparr>name = ''a'', description = ''first'', inputSchema = None\<rparr> (\<lambda>v. Inr v),
       AddTool \<lparr>name = ''b'', description = ''other'', inputSchema = None\<rparr> (\<lambda>v. Inr v),
       AddTool \<lparr>name = ''a'', description = ''second'', inputSchema = None\<rparr> (\<lambda>v. Inr v),
       RemoveTool ''b'',
       AddTool \<lparr>name = ''b'', description = ''again'', inputSchema = None\<rparr> (\<lambda>v. Inr v)]"
       None None "''c''" "MCPServer_new None None"] absent
    by (simp add: spec_list_def List.map_filter_simps)
qed

section \<open>Properties of initialization and authentication\<close>

text \<open>
  C9. \<open>handleInitialize\<close> returns the protocol version \<open>2024-11-05\<close>, the fixed capability
  set and the configured server information, whatever the parameters and the state, and
  returns the state as it was; handling an \<open>initialize\<close> request changes nothing but the
  output, which gains that result (nothing at all on a closed transport), so the
  \<open>initialized\<close> flag stays as it was.
\<close>

theorem handleInitialize_constant:
  "handleInitialize params s =
     (Inr (InitializeResult ''2024-11-05''
        \<lparr>logging = [], tools_listChanged = True, resources_subscribe = True,
         resources_listChanged = True, prompts_listChanged = True\<rparr> (serverInfo s)), s)
   \<and> snd (handleMessage e \<lparr>m_id = Some i, m_method = Some ''initialize'', m_params = params,
                            m_result = None, m_error = None\<rparr> s) =
       (if closed (transport s) then s
        else s\<lparr>stdout := stdout s @ [ResultMessage i (InitializeResult ''2024-11-05''
          \<lparr>logging = [], tools_listChanged = True, resources_subscribe = True,
           resources_listChanged = True, prompts_listChanged = True\<rparr> (serverInfo s))]\<rparr>)"
  by (simp add: handleInitialize_def handleMessage_def handleRequest_def dispatch_def of_handled_def
      sendResult_def sendError_def send_def)

text \<open>
  C10 (as amended). With a \<open>customValidator\<close> configured and an authorization value
  presented, \<open>authenticate\<close> succeeds exactly when the validator resolves to true on the
  extracted token; it fails with \<open>PermissionDenied\<close> (-32003) when the validator resolves to
  false, and with the validator's own error when the validator rejects; and the outcome is
  the same whatever \<open>apiKeys\<close> holds.
\<close>

theorem customValidator_precedence:
  assumes "customValidator config = Some validator"
    and "authorization headers = Some a" and "a \<noteq> []"
  shows "authenticate e config headers =
       (case validator (extractToken e a) of
          Inl err \<Rightarrow> Some err
        | Inr isValid \<Rightarrow>
            (if isValid then None
             else Some (MCPError (-32003) ''Invalid authentication token'' None)))
    \<and> (authenticate e config headers = None) = (validator (extractToken e a) = Inr True)
    \<and> authenticate e (config\<lparr>apiKeys := keys\<rparr>) headers = authenticate e config headers"
  using assms by (auto simp: authenticate_def Let_def split: sum.splits)

theorem customValidator_precedence_witness:
  "customValidator \<lparr>apiKeys = Some [''secret''], allowAnonymous = None,
                     customValidator = Some (\<lambda>t. Inr (t = ''other''))\<rparr>
     = Some (\<lambda>t. Inr (t = ''other''))
   \<and> authorization (Some [(''authorization'', ''Bearer secret'')]) = Some ''Bearer secret''
   \<and> ''Bearer secret'' \<noteq> []
   \<and> extractToken example_env ''Bearer secret'' = ''secret''
   \<and> authenticate example_env
        \<lparr>apiKeys = Some [''secret''], allowAnonymous = None,
         customValidator = Some (\<lambda>t. Inr (t = ''other''))\<rparr>
        (Some [(''authorization'', ''Bearer secret'')])
       = Some (MCPError (-32003) ''Invalid authentication token'' None)"
proof -
  have token: "extractToken example_env ''Bearer secret'' = ''secret''"
    by (simp add: extractToken_def example_env_def ascii_lower_def)
  have auth: "authorization (Some [(''authorization'', ''Bearer secret'')]) = Some ''Bearer secret''"
    by (simp add: authorization_def)
  show ?thesis
    using customValidator_precedence [of "\<lparr>apiKeys = Some [''secret''], allowAnonymous = None,
        customValidator = Some (\<lambda>t. Inr (t = ''other''))\<rparr>" "\<lambda>t. Inr (t = ''other'')"
        "Some [(''authorization'', ''Bearer secret'')]" "''Bearer secret''" example_env] token auth
    by simp
qed

text \<open>
  The validator rejects: \<open>authenticate\<close> rejects with the validator's error, which is no
  \<open>PermissionDenied\<close>.
\<close>

theorem validator_rejects_counterexample:
  "authenticate example_env
     \<lparr>apiKeys = Some [''secret''], allowAnonymous = None,
      customValidator = Some (\<lambda>t. Inl (Error ''validator unavailable''))\<rparr>
     (Some [(''authorization'', ''Bearer secret'')])
   = Some (Error ''validator unavailable'')"
  by (simp add: authenticate_def authorization_def)

section \<open>Properties of the dispatcher\<close>

lemma handleToolsCall_frame:
  "stdout (snd (handleToolsCall e p s)) = stdout s"
  "transport (snd (handleToolsCall e p s)) = transport s"
  by (simp_all add: handleToolsCall_def Let_def split: sum.split option.split prod.split)

lemma handleResourcesRead_frame: "snd (handleResourcesRead e p s) = s"
  by (simp add: handleResourcesRead_def Let_def split: sum.split option.split prod.split)

lemma handlePromptsGet_frame: "snd (handlePromptsGet e p s) = s"
  by (simp add: handlePromptsGet_def Let_def split: sum.split option.split prod.split)

lemma handleLoggingSetLevel_frame:
  "stdout (snd (handleLoggingSetLevel e p s)) = stdout s"
  "transport (snd (handleLoggingSetLevel e p s)) = transport s"
  by (simp_all add: handleLoggingSetLevel_def split: sum.split option.split json.split)

lemma of_handled_snd: "snd (of_handled h) = snd h"
  by (simp add: of_handled_def split: sum.split)

lemma returned_or_thrown_snd:
  "snd (case x of (None, s') \<Rightarrow> (Returned, s') | (Some err, s') \<Rightarrow> (Thrown err, s')) = snd x"
  by (cases x) (simp split: option.split)

lemma dispatch_frame:
  "stdout (snd (dispatch e m p s)) = stdout s"
  "transport (snd (dispatch e m p s)) = transport s"
  by (simp_all add: dispatch_def of_handled_snd returned_or_thrown_snd
      handleToolsCall_frame handleResourcesRead_frame
      handlePromptsGet_frame handleLoggingSetLevel_frame handleInitialize_def handleInitialized_def
      handleToolsList_def handleResourcesList_def handlePromptsList_def)

lemma handleResponse_frame: "stdout (handleResponse i r s) = stdout s"
  by (simp add: handleResponse_def settle_def clearTimeout_def split: option.split)

lemma handleErrorResponse_frame: "stdout (handleErrorResponse i r s) = stdout s"
  by (simp add: handleErrorResponse_def settle_def clearTimeout_def split: option.split)

lemma handleRequest_notification:
  "m_id msg = None \<Longrightarrow> stdout (snd (handleRequest e msg s)) = stdout s"
  using dispatch_frame(1) [of e "m_method msg" "m_params msg" s]
  by (cases "dispatch e (m_method msg) (m_params msg) s"; cases "fst (dispatch e (m_method msg) (m_params msg) s)")
     (simp_all add: handleRequest_def)

lemma handleRequest_fst_notification:
  "m_id msg = None \<Longrightarrow> fst (handleRequest e msg s) = None"
  by (cases "dispatch e (m_method msg) (m_params msg) s"; cases "fst (dispatch e (m_method msg) (m_params msg) s)")
     (simp_all add: handleRequest_def)

lemma notification_no_response:
  "m_id msg = None \<Longrightarrow> responses e msg s = []"
  using handleRequest_notification [of msg e s] handleRequest_fst_notification [of msg e s]
  by (cases "handleRequest e msg s") (simp add: responses_def handleMessage_def)

lemma handleRequest_open:
  assumes "m_id msg = Some i" "\<not> closed (transport s)"
  shows "handleRequest e msg s =
    (case dispatch e (m_method msg) (m_params msg) s of
       (Returned, s') \<Rightarrow> (None, s')
     | (Thrown err, s') \<Rightarrow> (None, s'\<lparr>stdout := stdout s @ [ErrorMessage i (toJSON e err)]\<rparr>)
     | (Result r, s') \<Rightarrow> (None, s'\<lparr>stdout := stdout s @ [ResultMessage i r]\<rparr>))"
  using assms dispatch_frame [of e "m_method msg" "m_params msg" s]
  by (cases "dispatch e (m_method msg) (m_params msg) s"; cases "fst (dispatch e (m_method msg) (m_params msg) s)")
     (simp_all add: handleRequest_def sendError_def sendResult_def send_def)


lemma of_handled_not_Returned: "fst (of_handled h) \<noteq> Returned"
  by (simp add: of_handled_def split: sum.split)

lemma dispatch_answers:
  "m \<noteq> Some ''initialized'' \<Longrightarrow> m \<noteq> Some ''logging/setLevel'' \<Longrightarrow> fst (dispatch e m p s) \<noteq> Returned"
  by (simp add: dispatch_def of_handled_not_Returned)

lemma dispatch_initialized: "dispatch e (Some ''initialized'') p s = (Returned, handleInitialized s)"
  by (simp add: dispatch_def)

lemma dispatch_setLevel:
  "map_of kvs ''level'' = Some (JStr l) \<Longrightarrow>
   fst (dispatch e (Some ''logging/setLevel'') (Some (JObj kvs)) s) = Returned"
  by (simp add: dispatch_def handleLoggingSetLevel_def split: option.split)

lemma handleRequest_closed:
  assumes "closed (transport s)"
  shows "stdout (snd (handleRequest e msg s)) = stdout s"
  using assms dispatch_frame [of e "m_method msg" "m_params msg" s]
  by (cases "dispatch e (m_method msg) (m_params msg) s"; cases "fst (dispatch e (m_method msg) (m_params msg) s)";
      cases "m_id msg")
     (simp_all add: handleRequest_def sendError_def sendResult_def send_def)

lemma handleRequest_transport:
  "transport (snd (handleRequest e msg s)) = transport s"
  using dispatch_frame [of e "m_method msg" "m_params msg" s]
  by (cases "dispatch e (m_method msg) (m_params msg) s"; cases "fst (dispatch e (m_method msg) (m_params msg) s)";
      cases "m_id msg")
     (simp_all add: handleRequest_def sendError_def sendResult_def send_def)

lemma handleRequest_open_fst:
  "\<not> closed (transport s) \<Longrightarrow> fst (handleRequest e msg s) = None"
  using dispatch_frame [of e "m_method msg" "m_params msg" s]
  by (cases "dispatch e (m_method msg) (m_params msg) s"; cases "fst (dispatch e (m_method msg) (m_params msg) s)";
      cases "m_id msg")
     (simp_all add: handleRequest_def sendError_def sendResult_def send_def)

text \<open>What handling a message writes is what handling it as a request writes, when it is one.\<close>

lemma handleMessage_stdout:
  "stdout (snd (handleMessage e msg s)) =
     (if (m_id msg \<noteq> None \<and> (m_result msg \<noteq> None \<or> m_error msg \<noteq> None))
         \<or> m_method msg = None \<or> m_method msg = Some [] then stdout s
      else stdout (snd (handleRequest e msg s)))"
proof (cases "closed (transport s)")
  case True
  then have c: "closed (transport (snd (handleRequest e msg s)))"
    by (simp add: handleRequest_transport)
  show ?thesis
    using handleRequest_closed [OF True, of e msg] c
    by (cases "handleRequest e msg s")
       (auto simp: handleMessage_def handleResponse_frame handleErrorResponse_frame
          sendError_def send_def split: option.split)
next
  case False
  show ?thesis
    using handleRequest_open_fst [OF False, of e msg]
    by (cases "handleRequest e msg s")
       (auto simp: handleMessage_def handleResponse_frame handleErrorResponse_frame
          split: option.split)
qed


lemma responses_request:
  "responses e msg s =
     (if (m_id msg \<noteq> None \<and> (m_result msg \<noteq> None \<or> m_error msg \<noteq> None))
         \<or> m_method msg = None \<or> m_method msg = Some [] then []
      else drop (length (stdout s)) (stdout (snd (handleRequest e msg s))))"
  by (auto simp: responses_def handleMessage_stdout)

lemma handleRequest_Returned:
  "fst (dispatch e (m_method msg) (m_params msg) s) = Returned \<Longrightarrow>
   stdout (snd (handleRequest e msg s)) = stdout s"
  using dispatch_frame(1) [of e "m_method msg" "m_params msg" s]
  by (cases "dispatch e (m_method msg) (m_params msg) s") (simp add: handleRequest_def)

lemma handleRequest_answers:
  assumes "m_id msg = Some i" "\<not> closed (transport s)"
    and "fst (dispatch e (m_method msg) (m_params msg) s) \<noteq> Returned"
  shows "(\<exists>r. stdout (snd (handleRequest e msg s)) = stdout s @ [ResultMessage i r])
       \<or> (\<exists>err. stdout (snd (handleRequest e msg s)) = stdout s @ [ErrorMessage i err])"
  using assms(3) dispatch_frame [of e "m_method msg" "m_params msg" s]
  by (cases "dispatch e (m_method msg) (m_params msg) s"; cases "fst (dispatch e (m_method msg) (m_params msg) s)")
     (simp_all add: handleRequest_open [OF assms(1,2)])

text \<open>
  C3 (as amended). A notification (no \<open>id\<close>) is never answered. A request with an \<open>id\<close>
  and a non-empty method other than \<open>initialized\<close> and \<open>logging/setLevel\<close> is answered, while
  the transport is open, with exactly one envelope carrying its \<open>id\<close>: a result or an error.
  \<open>initialized\<close> is never answered, with or without an \<open>id\<close>, and neither is
  \<open>logging/setLevel\<close> when its parameters carry a string \<open>level\<close>.
\<close>

theorem one_response_per_request:
  "(m_id msg = None \<longrightarrow> responses e msg s = [])
   \<and> (m_method msg = Some ''initialized'' \<longrightarrow> responses e msg s = [])
   \<and> (m_method msg = Some ''logging/setLevel'' \<and> m_params msg = Some (JObj kvs)
        \<and> map_of kvs ''level'' = Some (JStr l) \<longrightarrow> responses e msg s = [])
   \<and> (m_id msg = Some i \<and> m_result msg = None \<and> m_error msg = None \<and> m_method msg = Some m
        \<and> m \<noteq> [] \<and> m \<noteq> ''initialized'' \<and> m \<noteq> ''logging/setLevel'' \<and> \<not> closed (transport s)
       \<longrightarrow> (\<exists>r. responses e msg s = [ResultMessage i r])
           \<or> (\<exists>err. responses e msg s = [ErrorMessage i err]))"
proof (intro conjI impI)
  assume "m_id msg = None"
  then show "responses e msg s = []"
    by (simp add: responses_request handleRequest_notification)
next
  assume "m_method msg = Some ''initialized''"
  then show "responses e msg s = []"
    by (simp add: responses_request handleRequest_Returned dispatch_initialized)
next
  assume "m_method msg = Some ''logging/setLevel'' \<and> m_params msg = Some (JObj kvs)
    \<and> map_of kvs ''level'' = Some (JStr l)"
  then show "responses e msg s = []"
    by (simp add: responses_request handleRequest_Returned dispatch_setLevel)
next
  assume a: "m_id msg = Some i \<and> m_result msg = None \<and> m_error msg = None \<and> m_method msg = Some m
    \<and> m \<noteq> [] \<and> m \<noteq> ''initialized'' \<and> m \<noteq> ''logging/setLevel'' \<and> \<not> closed (transport s)"
  then have "fst (dispatch e (m_method msg) (m_params msg) s) \<noteq> Returned"
    by (intro dispatch_answers) simp_all
  with a have "(\<exists>r. stdout (snd (handleRequest e msg s)) = stdout s @ [ResultMessage i r])
       \<or> (\<exists>err. stdout (snd (handleRequest e msg s)) = stdout s @ [ErrorMessage i err])"
    by (intro handleRequest_answers) simp_all
  with a show "(\<exists>r. responses e msg s = [ResultMessage i r])
           \<or> (\<exists>err. responses e msg s = [ErrorMessage i err])"
    by (auto simp: responses_request)
qed

theorem one_response_per_request_witness:
  "responses example_env \<lparr>m_id = None, m_method = Some ''tools/list'', m_params = None,
        m_result = None, m_error = None\<rparr> (MCPServer_new None None) = []
   \<and> responses example_env \<lparr>m_id = None, m_method = Some ''initialized'', m_params = None,
        m_result = None, m_error = None\<rparr> (MCPServer_new None None) = []
   \<and> map_of [(''level'', JStr ''debug'')] ''level'' = Some (JStr ''debug'')
   \<and> responses example_env \<lparr>m_id = Some (IdNum 3), m_method = Some ''logging/setLevel'',
        m_params = Some (JObj [(''level'', JStr ''debug'')]),
        m_result = None, m_error = None\<rparr> (MCPServer_new None None) = []
   \<and> ''tools/list'' \<noteq> [] \<and> ''tools/list'' \<noteq> ''initialized'' \<and> ''tools/list'' \<noteq> ''logging/setLevel''
   \<and> \<not> closed (transport (MCPServer_new None None))
   \<and> responses example_env \<lparr>m_id = Some (IdNum 1), m_method = Some ''tools/list'', m_params = None,
        m_result = None, m_error = None\<rparr> (MCPServer_new None None)
       = [ResultMessage (IdNum 1) (ToolsListResult [])]"
proof -
  have op: "\<not> closed (transport (MCPServer_new None None))"
    by (simp add: MCPServer_new_def StdioTransport_new_def)
  have r: "responses example_env \<lparr>m_id = Some (IdNum 1), m_method = Some ''tools/list'', m_params = None,
        m_result = None, m_error = None\<rparr> (MCPServer_new None None)
       = [ResultMessage (IdNum 1) (ToolsListResult [])]"
    by (simp add: responses_def handleMessage_def handleRequest_def dispatch_def of_handled_def
        handleToolsList_def Map_values_def sendResult_def send_def
        MCPServer_new_def StdioTransport_new_def)
  show ?thesis
    using one_response_per_request [of "\<lparr>m_id = None, m_method = Some ''tools/list'', m_params = None,
        m_result = None, m_error = None\<rparr>" example_env "MCPServer_new None None"]
      one_response_per_request [of "\<lparr>m_id = None, m_method = Some ''initialized'', m_params = None,
        m_result = None, m_error = None\<rparr>" example_env "MCPServer_new None None"]
      one_response_per_request [of "\<lparr>m_id = Some (IdNum 3), m_method = Some ''logging/setLevel'',
        m_params = Some (JObj [(''level'', JStr ''debug'')]),
        m_result = None, m_error = None\<rparr>" example_env "MCPServer_new None None"
        "[(''level'', JStr ''debug'')]" "''debug''"]
      one_response_per_request [where msg = "\<lparr>m_id = Some (IdNum 1), m_method = Some ''tools/list'',
        m_params = None, m_result = None, m_error = None\<rparr>" and e = example_env
        and s = "MCPServer_new None None" and i = "IdNum 1" and m = "''tools/list''"]
      op r
    by simp
qed

text \<open>
  A request with an \<open>id\<close> whose method is \<open>initialized\<close>, on an open transport: nothing is
  written.
\<close>

theorem initialized_request_counterexample:
  "\<not> closed (transport (MCPServer_new None None))
   \<and> responses example_env \<lparr>m_id = Some (IdNum 7), m_method = Some ''initialized'', m_params = None,
        m_result = None, m_error = None\<rparr> (MCPServer_new None None) = []"
  by (simp add: responses_def handleMessage_def handleRequest_def dispatch_def handleInitialized_def
      MCPServer_new_def StdioTransport_new_def)


lemma handleRequest_stdout:
  assumes "\<not> closed (transport s)"
  shows "stdout (snd (handleRequest e msg s)) = stdout s @
     (case (m_id msg, fst (dispatch e (m_method msg) (m_params msg) s)) of
        (Some i, Result r) \<Rightarrow> [ResultMessage i r]
      | (Some i, Thrown err) \<Rightarrow> [ErrorMessage i (toJSON e err)]
      | _ \<Rightarrow> [])"
proof (cases "m_id msg")
  case None
  then show ?thesis by (simp add: handleRequest_notification)
next
  case (Some i)
  show ?thesis
    using dispatch_frame [of e "m_method msg" "m_params msg" s]
    by (cases "dispatch e (m_method msg) (m_params msg) s";
        cases "fst (dispatch e (m_method msg) (m_params msg) s)")
       (simp_all add: handleRequest_open [OF Some assms] Some)
qed

lemma of_handled_fst:
  "fst (of_handled h) = (case fst h of Inl err \<Rightarrow> Thrown err | Inr r \<Rightarrow> Result r)"
  by (simp add: of_handled_def split: sum.split)

lemma handleToolsCall_flag:
  "fst (handleToolsCall e p (s\<lparr>initialized := b\<rparr>)) = fst (handleToolsCall e p s)"
  by (simp add: handleToolsCall_def Let_def split: sum.split option.split prod.split)

lemma handleResourcesRead_flag:
  "fst (handleResourcesRead e p (s\<lparr>initialized := b\<rparr>)) = fst (handleResourcesRead e p s)"
  by (simp add: handleResourcesRead_def Let_def split: sum.split option.split prod.split)

lemma handlePromptsGet_flag:
  "fst (handlePromptsGet e p (s\<lparr>initialized := b\<rparr>)) = fst (handlePromptsGet e p s)"
  by (simp add: handlePromptsGet_def Let_def split: sum.split option.split prod.split)

lemma handleLoggingSetLevel_flag:
  "fst (handleLoggingSetLevel e p (s\<lparr>initialized := b\<rparr>)) = fst (handleLoggingSetLevel e p s)"
  by (simp add: handleLoggingSetLevel_def split: sum.split option.split json.split)

lemma returned_or_thrown_fst:
  "fst (case x of (None, s') \<Rightarrow> (Returned, s') | (Some err, s') \<Rightarrow> (Thrown err, s'))
     = (case fst x of None \<Rightarrow> Returned | Some err \<Rightarrow> Thrown err)"
  by (cases x) (simp split: option.split)

lemma dispatch_flag:
  "fst (dispatch e m p (s\<lparr>initialized := b\<rparr>)) = fst (dispatch e m p s)"
  by (simp add: dispatch_def returned_or_thrown_fst handleLoggingSetLevel_flag of_handled_fst
      handleToolsCall_flag handleResourcesRead_flag handlePromptsGet_flag
      handleInitialize_def handleToolsList_def handleResourcesList_def handlePromptsList_def)

lemma handleRequest_flag:
  "stdout (snd (handleRequest e msg (s\<lparr>initialized := b\<rparr>))) = stdout (snd (handleRequest e msg s))"
proof (cases "closed (transport s)")
  case True
  then show ?thesis by (simp add: handleRequest_closed)
next
  case False
  then show ?thesis by (simp add: handleRequest_stdout dispatch_flag)
qed

lemma handleMessage_flag:
  "stdout (snd (handleMessage e msg (s\<lparr>initialized := b\<rparr>))) = stdout (snd (handleMessage e msg s))"
  by (auto simp: handleMessage_stdout handleRequest_flag)

lemma handleToolsCall_code:
  "fst (handleToolsCall e p s) = Inl err \<Longrightarrow> code (toJSON e err) \<noteq> -32000"
  by (auto simp: handleToolsCall_def Let_def toJSON_def ToolExecutionError_def
      split: sum.splits option.splits prod.splits js_error.splits
      elim!: destructure.elims)


lemma handleResourcesRead_code:
  "fst (handleResourcesRead e p s) = Inl err \<Longrightarrow> code (toJSON e err) \<noteq> -32000"
  by (auto simp: handleResourcesRead_def Let_def toJSON_def
      split: sum.splits option.splits prod.splits js_error.splits
      elim!: destructure.elims)

lemma handlePromptsGet_code:
  "fst (handlePromptsGet e p s) = Inl err \<Longrightarrow> code (toJSON e err) \<noteq> -32000"
  by (auto simp: handlePromptsGet_def Let_def toJSON_def
      split: sum.splits option.splits prod.splits js_error.splits
      elim!: destructure.elims)

lemma handleLoggingSetLevel_code:
  "fst (handleLoggingSetLevel e p s) = Some err \<Longrightarrow> code (toJSON e err) \<noteq> -32000"
  by (auto simp: handleLoggingSetLevel_def toJSON_def
      split: sum.splits option.splits json.splits js_error.splits
      elim!: destructure.elims)

lemma dispatch_code:
  "fst (dispatch e m p s) = Thrown err \<Longrightarrow> code (toJSON e err) \<noteq> -32000"
  by (auto simp: dispatch_def returned_or_thrown_fst of_handled_fst toJSON_def
      handleInitialize_def handleToolsList_def handleResourcesList_def handlePromptsList_def
      split: if_splits sum.splits option.splits
      dest: handleToolsCall_code handleResourcesRead_code handlePromptsGet_code
        handleLoggingSetLevel_code)

lemma responses_code:
  assumes "ErrorMessage i err \<in> set (responses e msg s)"
  shows "code err \<noteq> -32000"
proof (cases "closed (transport s)")
  case True
  then have "responses e msg s = []"
    by (simp add: responses_request handleRequest_closed)
  with assms show ?thesis by simp
next
  case False
  from assms have "ErrorMessage i err \<in> set
     (case (m_id msg, fst (dispatch e (m_method msg) (m_params msg) s)) of
        (Some i, Result r) \<Rightarrow> [ResultMessage i r]
      | (Some i, Thrown err) \<Rightarrow> [ErrorMessage i (toJSON e err)]
      | _ \<Rightarrow> [])"
    by (simp add: responses_request handleRequest_stdout [OF False] split: if_splits)
  then show ?thesis
    by (cases "m_id msg"; cases "fst (dispatch e (m_method msg) (m_params msg) s)")
       (auto dest: dispatch_code)
qed

text \<open>
  C1 (as amended). The server does not gate requests on initialization: what it writes in
  answer to a message is the same whether or not the \<open>initialized\<close> notification has been
  processed, and no error it writes carries the code -32000; in particular a \<open>tools/list\<close>
  request, sent at any time on an open transport, receives the list of registered tools.
\<close>

theorem requests_not_gated:
  "stdout (snd (handleMessage e msg (s\<lparr>initialized := b\<rparr>))) = stdout (snd (handleMessage e msg s))
   \<and> (ErrorMessage i err \<in> set (responses e msg s) \<longrightarrow> code err \<noteq> -32000)
   \<and> (\<not> closed (transport s) \<longrightarrow>
        responses e \<lparr>m_id = Some i, m_method = Some ''tools/list'', m_params = p,
                      m_result = None, m_error = None\<rparr> s
          = [ResultMessage i (ToolsListResult (map definition_of (Map_values (tools s))))])"
proof (intro conjI impI)
  show "stdout (snd (handleMessage e msg (s\<lparr>initialized := b\<rparr>))) = stdout (snd (handleMessage e msg s))"
    by (rule handleMessage_flag)
next
  assume "ErrorMessage i err \<in> set (responses e msg s)"
  then show "code err \<noteq> -32000" by (rule responses_code)
next
  assume "\<not> closed (transport s)"
  then show "responses e \<lparr>m_id = Some i, m_method = Some ''tools/list'', m_params = p,
                      m_result = None, m_error = None\<rparr> s
          = [ResultMessage i (ToolsListResult (map definition_of (Map_values (tools s))))]"
    by (simp add: responses_request handleRequest_stdout dispatch_def of_handled_fst
        handleToolsList_def)
qed

theorem requests_not_gated_witness:
  "ErrorMessage (IdNum 2) \<lparr>code = -32601, message = ''Method not found: nope'', data = None\<rparr>
     \<in> set (responses example_env \<lparr>m_id = Some (IdNum 2), m_method = Some ''nope'', m_params = None,
               m_result = None, m_error = None\<rparr> (MCPServer_new None None))
   \<and> code \<lparr>code = -32601, message = ''Method not found: nope'', data = None\<rparr> \<noteq> -32000
   \<and> \<not> closed (transport (MCPServer_new None None))
   \<and> responses example_env \<lparr>m_id = Some (IdNum 1), m_method = Some ''tools/list'', m_params = None,
        m_result = None, m_error = None\<rparr> (MCPServer_new None None)
       = [ResultMessage (IdNum 1) (ToolsListResult [])]"
proof -
  have op: "\<not> closed (transport (MCPServer_new None None))"
    by (simp add: MCPServer_new_def StdioTransport_new_def)
  have unknown: "responses example_env \<lparr>m_id = Some (IdNum 2), m_method = Some ''nope'',
        m_params = None, m_result = None, m_error = None\<rparr> (MCPServer_new None None)
      = [ErrorMessage (IdNum 2) \<lparr>code = -32601, message = ''Method not found: nope'', data = None\<rparr>]"
    by (simp add: responses_def handleMessage_def handleRequest_def dispatch_def toJSON_def
        sendError_def send_def MCPServer_new_def StdioTransport_new_def)
  have none: "tools (MCPServer_new None None) = []"
    by (simp add: MCPServer_new_def)
  show ?thesis
    using requests_not_gated [where e = example_env
        and msg = "\<lparr>m_id = Some (IdNum 2), m_method = Some ''nope'',
          m_params = None, m_result = None, m_error = None\<rparr>"
        and s = "MCPServer_new None None" and b = False and i = "IdNum 2"
        and err = "\<lparr>code = -32601, message = ''Method not found: nope'', data = None\<rparr>"]
      requests_not_gated [where e = example_env
        and msg = "\<lparr>m_id = Some (IdNum 2), m_method = Some ''nope'',
          m_params = None, m_result = None, m_error = None\<rparr>"
        and s = "MCPServer_new None None" and b = False and i = "IdNum 1"
        and err = "\<lparr>code = -32601, message = ''Method not found: nope'', data = None\<rparr>"
        and p = None]
      op unknown none
    by (simp add: Map_values_def)
qed

text \<open>
  A new server, not initialized, answers \<open>tools/list\<close> with a result.
\<close>

theorem tools_list_before_initialize_counterexample:
  "\<not> initialized (MCPServer_new None None)
   \<and> responses example_env \<lparr>m_id = Some (IdNum 1), m_method = Some ''tools/list'', m_params = None,
        m_result = None, m_error = None\<rparr> (MCPServer_new None None)
       = [ResultMessage (IdNum 1) (ToolsListResult [])]"
  by (simp add: responses_def handleMessage_def handleRequest_def dispatch_def of_handled_def
        handleToolsList_def Map_values_def sendResult_def send_def
        MCPServer_new_def StdioTransport_new_def)


section \<open>Properties of tool calls\<close>


lemma call_invalid:
  assumes "Map_get n (tools s) = Some tool"
    and "map_of kvs ''name'' = Some (JStr n)" and "map_of kvs ''arguments'' = Some a"
    and "truthy a" and "inputSchema (definition_of tool) = Some schema" and "truthy schema"
    and "validateToolInput e schema a = Some err"
  shows "handleToolsCall e (Some (JObj kvs)) s =
     (Inl (ToolExecutionError (''Tool execution failed: '' @ error_message e err)
             (Some (JObj [(''tool'', JStr n), (''arguments'', a)]))), s)"
  using assms
  by (simp add: handleToolsCall_def lookup_def Let_def obj_def List.map_filter_simps)




lemma add_registered:
  "Map_get ''add'' (tools (addTool add_tool add_handler (MCPServer_new None None)))
     = Some \<lparr>definition_of = add_tool, handler = add_handler\<rparr>"
  by (simp add: Map_get_def addTool_def add_tool_def MCPServer_new_def)

lemma add_rejects_a5:
  "validateToolInput example_env add_schema (JObj [(''a'', JNum 5)])
     = Some (ValidationError
         (''Tool input validation failed:  must have required property '' @ [CHR 0x27] @ ''b'' @ [CHR 0x27])
         (Some (JObj [(''errors'', JArr [ajv_error_json (missing_property ''b'')]),
                      (''input'', JObj [(''a'', JNum 5)])])))"
  by (simp add: validateToolInput_def example_env_def add_schema_def List.map_filter_simps
      missing_property_def obj_def)


lemma new_server_fields:
  "stdout (addTool d h (MCPServer_new l i)) = []"
  "invocations (addTool d h (MCPServer_new l i)) = []"
  "\<not> closed (transport (addTool d h (MCPServer_new l i)))"
  by (simp_all add: addTool_def MCPServer_new_def StdioTransport_new_def)

text \<open>
  C2. The tool \<open>add\<close> requires \<open>a\<close> and \<open>b\<close>; called with \<open>{"a": 5}\<close>, the validator raises
  its \<open>ValidationError\<close> (-32005), \<open>handleToolsCall\<close> catches it with the handler's errors,
  and the answer carries the code -32001 and, as data, the tool and the arguments. The
  handler is not invoked.
\<close>

theorem validation_failure_wrapped:
  "responses example_env
     \<lparr>m_id = Some (IdNum 1), m_method = Some ''tools/call'',
      m_params = Some (JObj [(''name'', JStr ''add''), (''arguments'', JObj [(''a'', JNum 5)])]),
      m_result = None, m_error = None\<rparr>
     (addTool add_tool add_handler (MCPServer_new None None))
   = [ErrorMessage (IdNum 1)
        \<lparr>code = -32001,
         message = ''Tool execution failed: Tool input validation failed:  must have required property ''
                    @ [CHR 0x27] @ ''b'' @ [CHR 0x27],
         data = Some (JObj [(''tool'', JStr ''add''), (''arguments'', JObj [(''a'', JNum 5)])])\<rparr>]
   \<and> invocations (snd (handleMessage example_env
     \<lparr>m_id = Some (IdNum 1), m_method = Some ''tools/call'',
      m_params = Some (JObj [(''name'', JStr ''add''), (''arguments'', JObj [(''a'', JNum 5)])]),
      m_result = None, m_error = None\<rparr>
     (addTool add_tool add_handler (MCPServer_new None None)))) = []"
proof -
  let ?s = "addTool add_tool add_handler (MCPServer_new None None)"
  have call: "handleToolsCall example_env
      (Some (JObj [(''name'', JStr ''add''), (''arguments'', JObj [(''a'', JNum 5)])])) ?s
    = (Inl (ToolExecutionError (''Tool execution failed: '' @ error_message example_env
             (ValidationError
         (''Tool input validation failed:  must have required property '' @ [CHR 0x27] @ ''b'' @ [CHR 0x27])
         (Some (JObj [(''errors'', JArr [ajv_error_json (missing_property ''b'')]),
                      (''input'', JObj [(''a'', JNum 5)])]))))
             (Some (JObj [(''tool'', JStr ''add''), (''arguments'', JObj [(''a'', JNum 5)])]))), ?s)"
    by (rule call_invalid [OF add_registered _ _ _ _ _ add_rejects_a5])
       (simp_all add: add_tool_def add_schema_def)
  show ?thesis
    by (simp add: responses_def handleMessage_def handleRequest_def dispatch_def of_handled_def
        call new_server_fields ToolExecutionError_def ValidationError_def toJSON_def
        sendError_def send_def)
qed







section \<open>Properties of outbound requests and shutdown\<close>

lemma Map_get_delete: "Map_get k (Map_delete k' m) = (if k = k' then None else Map_get k m)"
  by (induction m) (auto simp: Map_get_def Map_delete_def)

lemma Map_get_set: "Map_get k (Map_set k' v m) = (if k = k' then Some v else Map_get k m)"
  by (induction m) (auto simp: Map_get_def)

lemma settle_fields:
  "pendingRequests (settle p out s) = pendingRequests s"
  "timers (settle p out s) = timers s"
  "requestId (settle p out s) = requestId s"
  "transport (settle p out s) = transport s"
  "promises (settle p out s) q =
     (if q = p \<and> promises s p = None then Some out else promises s q)"
  by (simp_all add: settle_def split: option.split)

lemma reject_all_fields:
  "pendingRequests (reject_all ps s) = pendingRequests s"
  "requestId (reject_all ps s) = requestId s"
  "transport (reject_all ps s) = transport s"
  by (induction ps arbitrary: s) (simp_all add: settle_fields clearTimeout_def)

lemma reject_all_timers:
  "Map_get h (timers (reject_all ps s)) =
     (if h \<in> timeout ` snd ` set ps then None else Map_get h (timers s))"
  by (induction ps arbitrary: s) (auto simp: settle_fields clearTimeout_def Map_get_delete)

lemma reject_all_promises:
  "promises (reject_all ps s) q =
     (case promises s q of
        Some out \<Rightarrow> Some out
      | None \<Rightarrow> (if q \<in> promise ` snd ` set ps
                 then Some (Rejected (Error ''Server shutting down'')) else None))"
proof (induction ps arbitrary: s)
  case Nil
  show ?case by (simp split: option.split)
next
  case (Cons kv ps)
  show ?case
    by (simp add: Cons.IH settle_fields clearTimeout_def settle_def split: option.split)
qed

text \<open>
  C5 (as amended). After \<open>shutdown\<close> the pending table is empty, the timer of every entry
  that was in it is cancelled, and every such entry whose caller was still waiting has been
  rejected with a plain \<open>Error\<close> whose message is \<open>Server shutting down\<close> (no MCP error
  code).
\<close>

theorem shutdown_rejects_pending:
  "pendingRequests (shutdown s) = []
   \<and> ((i, p) \<in> set (pendingRequests s) \<longrightarrow>
        Map_get (timeout p) (timers (shutdown s)) = None
        \<and> (promises s (promise p) = None \<longrightarrow>
             promises (shutdown s) (promise p) = Some (Rejected (Error ''Server shutting down''))))"
  by (force simp: shutdown_def Let_def reject_all_timers reject_all_promises)


lemma first_request:
  "sendRequest m p t (MCPServer_new l i) =
     ((1, 0), (MCPServer_new l i)
        \<lparr>requestId := 1, handles := 1,
         timers := [(0, \<lparr>delay = (case t of None \<Rightarrow> 30000 | Some ms \<Rightarrow> ms), request = 1\<rparr>)],
         pendingRequests := [(IdNum 1, \<lparr>promise = 0, timeout = 0\<rparr>)],
         stdout := [RequestMessage 1 m p]\<rparr>)"
  by (simp add: sendRequest_def increment_def send_def MCPServer_new_def StdioTransport_new_def)

text \<open>
  One request is pending on a new server; \<open>shutdown\<close> rejects it with a plain \<open>Error\<close>.
\<close>

theorem shutdown_plain_error_counterexample:
  "pendingRequests (snd (sendRequest ''ping'' None None (MCPServer_new None None)))
     = [(IdNum 1, \<lparr>promise = 0, timeout = 0\<rparr>)]
   \<and> promises (snd (sendRequest ''ping'' None None (MCPServer_new None None))) 0 = None
   \<and> promises (shutdown (snd (sendRequest ''ping'' None None (MCPServer_new None None)))) 0
     = Some (Rejected (Error ''Server shutting down''))
   \<and> promises (shutdown (snd (sendRequest ''ping'' None None (MCPServer_new None None)))) 0
     \<noteq> Some (Rejected (MCPError (-32006) ''shutting down'' None))"
  by (simp add: first_request shutdown_def Let_def settle_def clearTimeout_def)
     (simp add: MCPServer_new_def)

theorem shutdown_rejects_pending_witness:
  "(IdNum 1, \<lparr>promise = 0, timeout = 0\<rparr>)
     \<in> set (pendingRequests (snd (sendRequest ''ping'' None (Some 50) (MCPServer_new None None))))
   \<and> promises (snd (sendRequest ''ping'' None (Some 50) (MCPServer_new None None))) 0 = None
   \<and> Map_get 0 (timers (shutdown (snd (sendRequest ''ping'' None (Some 50) (MCPServer_new None None)))))
       = None
   \<and> promises (shutdown (snd (sendRequest ''ping'' None (Some 50) (MCPServer_new None None)))) 0
       = Some (Rejected (Error ''Server shutting down''))
   \<and> pendingRequests (shutdown (snd (sendRequest ''ping'' None (Some 50) (MCPServer_new None None))))
       = []"
proof -
  have pend: "pendingRequests (snd (sendRequest ''ping'' None (Some 50) (MCPServer_new None None)))
      = [(IdNum 1, \<lparr>promise = 0, timeout = 0\<rparr>)]"
    by (simp add: first_request)
  have unsettled: "promises (snd (sendRequest ''ping'' None (Some 50) (MCPServer_new None None))) 0 = None"
    by (simp add: first_request) (simp add: MCPServer_new_def)
  show ?thesis
    using shutdown_rejects_pending [of "snd (sendRequest ''ping'' None (Some 50) (MCPServer_new None None))"
        "IdNum 1" "\<lparr>promise = 0, timeout = 0\<rparr>"] pend unsettled
    by simp
qed


lemma handleToolsCall_requestId: "requestId (snd (handleToolsCall e p s)) = requestId s"
  by (simp add: handleToolsCall_def Let_def split: sum.split option.split prod.split)

lemma handleLoggingSetLevel_requestId: "requestId (snd (handleLoggingSetLevel e p s)) = requestId s"
  by (simp add: handleLoggingSetLevel_def split: sum.split option.split json.split)

lemma dispatch_requestId: "requestId (snd (dispatch e m p s)) = requestId s"
  by (simp add: dispatch_def of_handled_snd returned_or_thrown_snd
      handleToolsCall_requestId handleResourcesRead_frame
      handlePromptsGet_frame handleLoggingSetLevel_requestId handleInitialize_def handleInitialized_def
      handleToolsList_def handleResourcesList_def handlePromptsList_def)

lemma handleRequest_requestId: "requestId (snd (handleRequest e msg s)) = requestId s"
  using dispatch_requestId [of e "m_method msg" "m_params msg" s]
  by (cases "dispatch e (m_method msg) (m_params msg) s"; cases "fst (dispatch e (m_method msg) (m_params msg) s)";
      cases "m_id msg"; cases "closed (transport (snd (dispatch e (m_method msg) (m_params msg) s)))")
     (simp_all add: handleRequest_def sendError_def sendResult_def send_def)

lemma handleMessage_requestId: "requestId (snd (handleMessage e msg s)) = requestId s"
  using handleRequest_requestId [of e msg s]
  by (cases "handleRequest e msg s")
     (auto simp: handleMessage_def handleResponse_def handleErrorResponse_def settle_fields
        clearTimeout_def sendError_def send_def split: option.split)

lemma timer_fires_requestId: "requestId (timer_fires h s) = requestId s"
  by (simp add: timer_fires_def settle_fields split: option.split)

lemma shutdown_requestId: "requestId (shutdown s) = requestId s"
  by (simp add: shutdown_def Let_def reject_all_fields)

lemma register_requestId: "requestId (register r s) = requestId s"
  by (cases r) (simp_all add: registration_defs)

lemma sendRequest_id:
  "fst (sendRequest m p t s) = (increment (requestId s), handles s)"
  "requestId (snd (sendRequest m p t s)) = increment (requestId s)"
  by (simp_all add: sendRequest_def Let_def send_def settle_fields)

lemma act_requestId:
  "requestId s < 2 ^ 53 \<Longrightarrow>
   requestId s \<le> requestId (snd (act e a s)) \<and> requestId (snd (act e a s)) \<le> requestId s + 1
   \<and> (\<forall>i \<in> set (fst (act e a s)). requestId s < i \<and> i \<le> requestId (snd (act e a s)))"
  by (cases a)
     (simp_all add: sendRequest_id increment_def handleMessage_requestId timer_fires_requestId
        shutdown_requestId register_requestId)

lemma run_ascending:
  "requestId s + length acts \<le> 2 ^ 53 \<Longrightarrow>
   sorted_wrt (<) (fst (run e acts s))
   \<and> (\<forall>i \<in> set (fst (run e acts s)). requestId s < i)"
proof (induction acts arbitrary: s)
  case Nil
  show ?case by simp
next
  case (Cons a acts)
  let ?s' = "snd (act e a s)"
  from Cons.prems have below: "requestId s < 2 ^ 53" by simp
  note step = act_requestId [OF below, of e a]
  from step Cons.prems have "requestId ?s' + length acts \<le> 2 ^ 53" by simp
  from Cons.IH [OF this]
  have ih: "sorted_wrt (<) (fst (run e acts ?s'))"
    "\<forall>i \<in> set (fst (run e acts ?s')). requestId ?s' < i" by simp_all
  have one: "sorted_wrt (<) (fst (act e a s))" by (cases a) simp_all
  show ?case
    using step ih one by (fastforce simp: sorted_wrt_append)
qed


lemma sendRequest_timer:
  "Map_get (handles s) (timers (snd (sendRequest m p t s)))
     = Some \<lparr>delay = (case t of None \<Rightarrow> 30000 | Some ms \<Rightarrow> ms), request = increment (requestId s)\<rparr>"
  by (simp add: sendRequest_def Let_def send_def settle_fields Map_get_set)

lemma sendRequest_entry:
  "Map_get (IdNum (int (increment (requestId s)))) (pendingRequests (snd (sendRequest m p t s)))
     = Some \<lparr>promise = handles s, timeout = handles s\<rparr>"
  by (simp add: sendRequest_def Let_def send_def settle_fields Map_get_set)

lemma sendRequest_waiting:
  "\<not> closed (transport s) \<Longrightarrow> promises s (handles s) = None \<Longrightarrow>
   promises (snd (sendRequest m p t s)) (handles s) = None"
  by (simp add: sendRequest_def Let_def send_def)

lemma timer_fires_rejects:
  assumes "Map_get h (timers s) = Some tm" and "promises s h = None"
  shows "promises (timer_fires h s) h
           = Some (Rejected (MCPError (-32006) ''Request timeout'' None))"
    and "Map_get (IdNum (int (request tm))) (pendingRequests (timer_fires h s)) = None"
  using assms by (simp_all add: timer_fires_def settle_fields Map_get_delete)

lemma late_response:
  "Map_get i (pendingRequests s) = None \<Longrightarrow>
   handleMessage e \<lparr>m_id = Some i, m_method = None, m_params = None, m_result = Some r,
                     m_error = None\<rparr> s = (None, s)"
  by (simp add: handleMessage_def handleResponse_def)

text \<open>
  C6. Along any run of the endpoint that stays within the range where its counter is exact
  (\<open>2^53\<close>), the ids \<open>sendRequest\<close> assigns are strictly increasing, each greater than
  every one before. \<open>sendRequest\<close> sets a deadline timer of 30000 ms when no timeout is
  given (of the given delay otherwise) and enters the request in the pending table. When
  that timer fires while the caller is still waiting, the caller is rejected with a
  \<open>TimeoutError\<close> (-32006) and the entry leaves the pending table, so that a response
  arriving afterwards changes nothing.
\<close>

theorem sendRequest_ids_and_timeout:
  "(requestId s + length acts \<le> 2 ^ 53 \<longrightarrow>
      sorted_wrt (<) (fst (run e acts s)) \<and> (\<forall>i \<in> set (fst (run e acts s)). requestId s < i))
   \<and> fst (sendRequest m p t s) = (increment (requestId s), handles s)
   \<and> Map_get (handles s) (timers (snd (sendRequest m p None s)))
       = Some \<lparr>delay = 30000, request = increment (requestId s)\<rparr>
   \<and> Map_get (handles s) (timers (snd (sendRequest m p (Some ms) s)))
       = Some \<lparr>delay = ms, request = increment (requestId s)\<rparr>
   \<and> Map_get (IdNum (int (increment (requestId s)))) (pendingRequests (snd (sendRequest m p t s)))
       = Some \<lparr>promise = handles s, timeout = handles s\<rparr>
   \<and> (\<not> closed (transport s) \<and> promises s (handles s) = None \<longrightarrow>
        promises (snd (sendRequest m p t s)) (handles s) = None)
   \<and> (Map_get h (timers s) = Some tm \<and> promises s h = None \<longrightarrow>
        promises (timer_fires h s) h
          = Some (Rejected (MCPError (-32006) ''Request timeout'' None))
        \<and> Map_get (IdNum (int (request tm))) (pendingRequests (timer_fires h s)) = None
        \<and> handleMessage e \<lparr>m_id = Some (IdNum (int (request tm))), m_method = None, m_params = None,
                            m_result = Some r, m_error = None\<rparr> (timer_fires h s)
            = (None, timer_fires h s))"
  using run_ascending [of s acts e]
  by (simp add: sendRequest_id sendRequest_timer sendRequest_entry sendRequest_waiting
      timer_fires_rejects late_response)



lemma second_request:
  "fst (run example_env
     [Request ''ping'' None None, TimerFires 0,
      Receive \<lparr>m_id = Some (IdNum 1), m_method = None, m_params = None, m_result = Some JNull,
               m_error = None\<rparr>,
      Request ''roots/list'' None (Some 50)] (MCPServer_new None None)) = [1, 2]"
proof -
  have "requestId (MCPServer_new None None) = 0"
    by (simp add: MCPServer_new_def)
  then show ?thesis
    by (simp add: sendRequest_id handleMessage_requestId timer_fires_requestId increment_def)
qed

theorem sendRequest_ids_and_timeout_witness:
  "requestId (MCPServer_new None None) + length
     [Request ''ping'' None None, TimerFires 0,
      Receive \<lparr>m_id = Some (IdNum 1), m_method = None, m_params = None, m_result = Some JNull,
               m_error = None\<rparr>,
      Request ''roots/list'' None (Some 50)] \<le> 2 ^ 53
   \<and> fst (run example_env
     [Request ''ping'' None None, TimerFires 0,
      Receive \<lparr>m_id = Some (IdNum 1), m_method = None, m_params = None, m_result = Some JNull,
               m_error = None\<rparr>,
      Request ''roots/list'' None (Some 50)] (MCPServer_new None None)) = [1, 2]
   \<and> sorted_wrt (<) [1, 2 :: nat]
   \<and> \<not> closed (transport (MCPServer_new None None))
   \<and> promises (MCPServer_new None None) (handles (MCPServer_new None None)) = None
   \<and> promises (snd (sendRequest ''ping'' None None (MCPServer_new None None))) 0 = None
   \<and> Map_get 0 (timers (snd (sendRequest ''ping'' None None (MCPServer_new None None))))
       = Some \<lparr>delay = 30000, request = 1\<rparr>
   \<and> promises (timer_fires 0 (snd (sendRequest ''ping'' None None (MCPServer_new None None)))) 0
       = Some (Rejected (MCPError (-32006) ''Request timeout'' None))
   \<and> Map_get (IdNum 1)
        (pendingRequests (timer_fires 0 (snd (sendRequest ''ping'' None None (MCPServer_new None None)))))
       = None"
proof -
  let ?s0 = "MCPServer_new None None"
  let ?s1 = "snd (sendRequest ''ping'' None None ?s0)"
  let ?acts = "[Request ''ping'' None None, TimerFires 0,
      Receive \<lparr>m_id = Some (IdNum 1), m_method = None, m_params = None, m_result = Some JNull,
               m_error = None\<rparr>,
      Request ''roots/list'' None (Some 50)]"
  have bound: "requestId ?s0 + length ?acts \<le> 2 ^ 53"
    by (simp add: MCPServer_new_def)
  have op: "\<not> closed (transport ?s0)"
    by (simp add: MCPServer_new_def StdioTransport_new_def)
  have fresh: "promises ?s0 (handles ?s0) = None"
    by (simp add: MCPServer_new_def)
  have waiting: "promises ?s1 0 = None"
    by (simp add: first_request) (simp add: MCPServer_new_def)
  have set: "Map_get 0 (timers ?s1) = Some \<lparr>delay = 30000, request = 1\<rparr>"
    by (simp add: first_request Map_get_def)
  have "requestId ?s0 + length ?acts \<le> 2 ^ 53 \<longrightarrow>
      sorted_wrt (<) (fst (run example_env ?acts ?s0))
      \<and> (\<forall>i \<in> set (fst (run example_env ?acts ?s0)). requestId ?s0 < i)"
    using sendRequest_ids_and_timeout [where s = ?s0 and e = example_env and acts = ?acts]
    by (rule conjunct1)
  with bound have "sorted_wrt (<) (fst (run example_env ?acts ?s0))" by blast
  then have ascending: "sorted_wrt (<) [1, 2 :: nat]" by (simp only: second_request)
  have "Map_get 0 (timers ?s1) = Some \<lparr>delay = 30000, request = 1\<rparr> \<and> promises ?s1 0 = None \<longrightarrow>
        promises (timer_fires 0 ?s1) 0
          = Some (Rejected (MCPError (-32006) ''Request timeout'' None))
        \<and> Map_get (IdNum (int (request \<lparr>delay = 30000, request = 1\<rparr>)))
            (pendingRequests (timer_fires 0 ?s1)) = None
        \<and> handleMessage example_env \<lparr>m_id = Some (IdNum (int (request \<lparr>delay = 30000, request = 1\<rparr>))),
              m_method = None, m_params = None, m_result = Some JNull, m_error = None\<rparr>
              (timer_fires 0 ?s1)
            = (None, timer_fires 0 ?s1)"
    using sendRequest_ids_and_timeout [where s = ?s1 and e = example_env and h = 0
        and tm = "\<lparr>delay = 30000, request = 1\<rparr>" and r = JNull]
    by blast
  with set waiting have fired:
    "promises (timer_fires 0 ?s1) 0 = Some (Rejected (MCPError (-32006) ''Request timeout'' None))"
    "Map_get (IdNum (int (request \<lparr>delay = 30000, request = 1\<rparr>)))
       (pendingRequests (timer_fires 0 ?s1)) = None"
    by blast+
  from fired(2) have gone: "Map_get (IdNum 1) (pendingRequests (timer_fires 0 ?s1)) = None"
    by simp
  show ?thesis
    using bound second_request ascending op fresh waiting set fired(1) gone
    by blast
qed


end
